theory Spec2Isabelle
  imports Complex_Main
begin

section \<open>The Python runtime the notebook relies on\<close>

text \<open>
  The notebook \<^verbatim>\<open>src/ase.ipynb\<close> is straight-line orchestration code: every cell
  changes the process state (working directory, file system) or calls an external program.
  The process state is an explicit record, a raised exception is a value, and effects made
  before an exception stay in the state, as they do in Python.
\<close>

datatype py_error =
    FileExistsError
  | FileNotFoundError
  | NotADirectoryError
  | IsADirectoryError
  | KeyError string
  | FormatError
  | ValueError
  | RuntimeError
  | ImportError
  | CalculationFailed
  | UsageError
  | ExternalFailure string

text \<open>
  A path is the list of its components below the root; the empty list is the root.
  \<^verbatim>\<open>'/tmp/jupiter/'\<close> and \<^verbatim>\<open>'/tmp/jupiter//pseudo/'\<close> have the components
  \<open>[tmp, jupiter]\<close> and \<open>[tmp, jupiter, pseudo]\<close>: empty components are dropped, as the
  operating system does. The notebook passes no \<^verbatim>\<open>.\<close> or \<^verbatim>\<open>..\<close> component to
  \<^verbatim>\<open>os.makedirs\<close>, \<^verbatim>\<open>os.chdir\<close> or \<^verbatim>\<open>io.read\<close>, so they are not interpreted.
\<close>

type_synonym path = "string list"

fun split_slash :: "string \<Rightarrow> string list" where
  "split_slash [] = [[]]"
| "split_slash (c # cs) =
     (if c = CHR ''/'' then [] # split_slash cs
      else (case split_slash cs of
              [] \<Rightarrow> [[c]]
            | x # xs \<Rightarrow> (c # x) # xs))"

definition components :: "string \<Rightarrow> path" where
  "components s = filter (\<lambda>x. x \<noteq> []) (split_slash s)"

definition isabs :: "string \<Rightarrow> bool" where
  "isabs s = (case s of [] \<Rightarrow> False | c # _ \<Rightarrow> c = CHR ''/'')"

text \<open>The directory a name is resolved against: the root, or the working directory.\<close>

definition base_of :: "path \<Rightarrow> string \<Rightarrow> path" where
  "base_of wd s = (if isabs s then [] else wd)"

definition abspath :: "path \<Rightarrow> string \<Rightarrow> path" where
  "abspath wd s = base_of wd s @ components s"

subsection \<open>Files and directories\<close>

text \<open>
  What a file holds is kept abstract: a crystal structure, the solver's input or output,
  or bytes no reader recognises. The parsers and serialisers themselves are external.
\<close>

type_synonym position = "real \<times> real \<times> real"

record atoms_data =
  symbols :: "string list"
  positions :: "position list"

text \<open>
  What the calculator parses from the solver's output file: the last set of atoms the
  solver printed and the scalars.
\<close>

record pw_output =
  final :: atoms_data
  energy :: real
  fermi :: real

type_synonym dataset = "string \<times> real list"

datatype content =
    Raw string
  | Structure atoms_data
  | SolverInput atoms_data
  | SolverOutput pw_output
  | Histogram "real list"

datatype node = Dir | File content

type_synonym filesystem = "path \<rightharpoonup> node"

definition exists_p :: "filesystem \<Rightarrow> path \<Rightarrow> bool" where
  "exists_p f p = (p = [] \<or> f p \<noteq> None)"

definition isdir :: "filesystem \<Rightarrow> path \<Rightarrow> bool" where
  "isdir f p = (p = [] \<or> f p = Some Dir)"

text \<open>
  \<^verbatim>\<open>os.mkdir\<close>: the entry must not exist and its parent must be a directory.
\<close>

definition mkdir :: "path \<Rightarrow> filesystem \<Rightarrow> (py_error + unit) \<times> filesystem" where
  "mkdir p f =
     (if exists_p f p then (Inl FileExistsError, f)
      else if \<not> exists_p f (butlast p) then (Inl FileNotFoundError, f)
      else if \<not> isdir f (butlast p) then (Inl NotADirectoryError, f)
      else (Inr (), f(p \<mapsto> Dir)))"

text \<open>
  \<^verbatim>\<open>os.makedirs(name, exist_ok)\<close>, following the standard library: when the head of the
  name is missing it is created first (a \<^verbatim>\<open>FileExistsError\<close> of that inner call is
  passed over), then the leaf is made with \<^verbatim>\<open>mkdir\<close>, whose error is swallowed only
  when \<open>exist_ok\<close> is set and the name is a directory. \<open>base\<close> is the directory the
  name is relative to.
\<close>

function makedirs :: "path \<Rightarrow> path \<Rightarrow> bool \<Rightarrow> filesystem \<Rightarrow> (py_error + unit) \<times> filesystem" where
  "makedirs base name exist_ok f =
     (let hd_name = butlast name;
          (r, f1) =
            (if hd_name \<noteq> [] \<and> \<not> exists_p f (base @ hd_name) then
               (case makedirs base hd_name exist_ok f of
                  (Inl e, f') \<Rightarrow> (if e = FileExistsError then (Inr (), f') else (Inl e, f'))
                | (Inr u, f') \<Rightarrow> (Inr (), f'))
             else (Inr (), f))
      in case r of
           Inl e \<Rightarrow> (Inl e, f1)
         | Inr u \<Rightarrow>
             (case mkdir (base @ name) f1 of
                (Inl e, f2) \<Rightarrow>
                  (if \<not> exist_ok \<or> \<not> isdir f2 (base @ name) then (Inl e, f2)
                   else (Inr (), f2))
              | (Inr v, f2) \<Rightarrow> (Inr (), f2)))"
  by pat_completeness auto
termination
  by (relation "measure (\<lambda>(base, name, exist_ok, f). length name)")
    (auto intro!: diff_less)

declare makedirs.simps [simp del]

subsection \<open>Process state, exceptions, external programs\<close>

text \<open>
  The keyword arguments of \<^verbatim>\<open>Espresso(...)\<close> (lines 229-249), the solver
  configuration.
\<close>

record espresso =
  pseudopotentials :: "(string \<times> string) list"
  tstress :: bool
  tprnfor :: bool
  kpts :: "nat \<times> nat \<times> nat"
  ecutrho :: real
  ecutwfc :: real
  ibrav :: int
  nat_arg :: nat
  ntyp :: nat
  calculation :: string
  occupations :: string
  smearing :: string
  degauss :: real
  outdir :: string
  pseudo_dir_arg :: string
  conv_thr :: real
  mixing_mode :: string
  electron_maxstep :: nat
  mixing_beta :: real
  ion_dynamics :: string

text \<open>
  A calculator object keeps its configuration and, after a run, the results it parsed.
  An \<^verbatim>\<open>Atoms\<close> object keeps the structure and the calculator attached to it.
  Objects live in a heap and variables hold references, so that \<^verbatim>\<open>atom = atomCIF\<close>
  is two names for one object.
\<close>

record calculator =
  params :: espresso
  results :: "pw_output option"

record atoms_obj =
  data :: atoms_data
  calc :: "calculator option"

type_synonym ref = nat

text \<open>The instrument description handed to the simulation engine (lines 410-486).\<close>

datatype pyval = Num real | Str string

record component =
  cname :: string
  ctype :: string
  AT :: "pyval list"
  AT_RELATIVE :: "string option"
  ROTATED :: "pyval list"
  ROTATED_RELATIVE :: "string option"
  SPLIT :: "nat option"
  attrs :: "(string \<times> pyval) list"

record instrument =
  instr_name :: string
  parameters :: "(string \<times> real) list"
  declare_vars :: "(string \<times> string) list"
  initialize :: "string list"
  components_of :: "component list"

datatype event =
    Shell string path
  | Solver atoms_data espresso
  | Engine path

record world =
  environ :: "string \<rightharpoonup> string"
  cwd :: path
  fs :: filesystem
  heap :: "atoms_obj list"
  calls :: "event list"

text \<open>
  The programs and libraries outside the repository are parameters of the model:
  \<^item> \<open>shell\<close>: what a command line given to \<^verbatim>\<open>os.system\<close> does to the file system,
    and its exit status;
  \<^item> \<open>pw_x\<close>: the solver command run by the calculator: its exit status, and what its
    redirected output leaves in \<^verbatim>\<open>espresso.pwo\<close>;
  \<^item> \<open>import_modules\<close>: whether the imports of lines 394-401 succeed;
  \<^item> \<open>mcrun\<close>: the Monte Carlo engine, which fails or returns the monitors' histograms.
\<close>

record ext =
  shell :: "string \<Rightarrow> (string \<rightharpoonup> string) \<Rightarrow> path \<Rightarrow> filesystem \<Rightarrow> int \<times> filesystem"
  pw_x :: "atoms_data \<Rightarrow> espresso \<Rightarrow> filesystem \<Rightarrow> int \<times> content"
  import_modules :: "path \<Rightarrow> filesystem \<Rightarrow> py_error option"
  mcrun :: "instrument \<Rightarrow> real \<Rightarrow> nat \<Rightarrow> path \<Rightarrow> filesystem \<Rightarrow> py_error + dataset list"

type_synonym 'a py = "world \<Rightarrow> (py_error + 'a) \<times> world"

definition py_return :: "'a \<Rightarrow> 'a py" where
  "py_return x w = (Inr x, w)"

definition py_result :: "py_error + 'a \<Rightarrow> 'a py" where
  "py_result r w = (r, w)"

text \<open>Sequencing: an exception ends the run, and the state reached so far stays.\<close>

definition py_bind :: "'a py \<Rightarrow> ('a \<Rightarrow> 'b py) \<Rightarrow> 'b py" where
  "py_bind m k w = (case m w of (Inl e, w') \<Rightarrow> (Inl e, w') | (Inr x, w') \<Rightarrow> k x w')"

definition os_makedirs :: "string \<Rightarrow> bool \<Rightarrow> unit py" where
  "os_makedirs name exist_ok w =
     (if name = [] then (Inl FileNotFoundError, w)
      else (case makedirs (base_of (cwd w) name) (components name) exist_ok (fs w) of
              (r, f') \<Rightarrow> (r, w\<lparr>fs := f'\<rparr>)))"

definition os_chdir :: "string \<Rightarrow> unit py" where
  "os_chdir name w =
     (let p = abspath (cwd w) name in
      if \<not> exists_p (fs w) p then (Inl FileNotFoundError, w)
      else if \<not> isdir (fs w) p then (Inl NotADirectoryError, w)
      else (Inr (), w\<lparr>cwd := p\<rparr>))"

text \<open>
  \<^verbatim>\<open>os.system\<close> runs the command and returns its exit status; a failing command
  raises nothing.
\<close>

definition os_system :: "ext \<Rightarrow> string \<Rightarrow> int py" where
  "os_system x cmd w =
     (case shell x cmd (environ w) (cwd w) (fs w) of
        (status, f') \<Rightarrow> (Inr status, w\<lparr>fs := f', calls := calls w @ [Shell cmd (cwd w)]\<rparr>))"

definition environ_get :: "string \<Rightarrow> string py" where
  "environ_get k w = (case environ w k of None \<Rightarrow> (Inl (KeyError k), w) | Some v \<Rightarrow> (Inr v, w))"

definition environ_set :: "string \<Rightarrow> string \<Rightarrow> unit py" where
  "environ_set k v w = (Inr (), w\<lparr>environ := (environ w)(k \<mapsto> v)\<rparr>)"


section \<open>The structure library as the notebook uses it\<close>

text \<open>
  Modelled from the spec: \<^verbatim>\<open>read(path) -> AtomicStructure\<close> fails with FormatError when
  the file is not a recognised structure format; a missing file is a file-not-found
  condition. Reading the solver's output with \<^verbatim>\<open>index=-1\<close> gives the last set of
  atoms in it. Each read makes a new object.
\<close>

definition new_atoms :: "atoms_data \<Rightarrow> ref py" where
  "new_atoms a w = (Inr (length (heap w)), w\<lparr>heap := heap w @ [\<lparr>data = a, calc = None\<rparr>]\<rparr>)"

definition io_read :: "string \<Rightarrow> ref py" where
  "io_read name w =
     (case fs w (abspath (cwd w) name) of
        None \<Rightarrow> (Inl FileNotFoundError, w)
      | Some Dir \<Rightarrow> (Inl IsADirectoryError, w)
      | Some (File c) \<Rightarrow>
          (case c of
             Structure a \<Rightarrow> new_atoms a w
           | SolverOutput out \<Rightarrow> new_atoms (final out) w
           | _ \<Rightarrow> (Inl FormatError, w)))"

definition deref :: "ref \<Rightarrow> atoms_obj py" where
  "deref r w = (if r < length (heap w) then (Inr (heap w ! r), w) else (Inl RuntimeError, w))"

definition get_positions :: "ref \<Rightarrow> (position list) py" where
  "get_positions r = py_bind (deref r) (\<lambda>obj. py_return (positions (data obj)))"

text \<open>
  Modelled from the spec: \<^verbatim>\<open>write(path, AtomicStructure)\<close> serialises the structure and
  overwrites an existing file silently.
\<close>

definition io_write :: "string \<Rightarrow> ref \<Rightarrow> unit py" where
  "io_write name r =
     py_bind (deref r) (\<lambda>obj w.
       let p = abspath (cwd w) name in
       if isdir (fs w) p then (Inl IsADirectoryError, w)
       else if \<not> isdir (fs w) (butlast p) then (Inl FileNotFoundError, w)
       else (Inr (), w\<lparr>fs := (fs w)(p \<mapsto> File (Structure (data obj)))\<rparr>))"

text \<open>\<^verbatim>\<open>atom.calc = calc\<close>: the calculator is attached to the object the name refers to.\<close>

definition set_calc :: "ref \<Rightarrow> espresso \<Rightarrow> unit py" where
  "set_calc r cfg =
     py_bind (deref r) (\<lambda>obj w.
       (Inr (), w\<lparr>heap := (heap w)[r := obj\<lparr>calc := Some \<lparr>params = cfg, results = None\<rparr>\<rparr>]\<rparr>))"

text \<open>
  The calculator is outside the repository. It works on a copy of the structure: it
  writes \<^verbatim>\<open>espresso.pwi\<close>, runs the solver command with its output redirected to
  \<^verbatim>\<open>espresso.pwo\<close> (so that file is there whatever the solver does), raises
  \<^verbatim>\<open>CalculationFailed\<close> when the exit status of the command is not zero, and otherwise
  parses the output and keeps the results. The object the notebook holds keeps its
  positions: what is updated after a run (lines 265-270) are the results of the
  calculator attached to it. A calculator that already holds results answers from them.
\<close>

definition solver_started :: "atoms_obj \<Rightarrow> calculator \<Rightarrow> world \<Rightarrow> world" where
  "solver_started obj c w =
     w\<lparr>calls := calls w @ [Solver (data obj) (params c)],
       fs := (fs w)(abspath (cwd w) ''espresso.pwi'' \<mapsto> File (SolverInput (data obj)))\<rparr>"

definition launch_solver :: "ext \<Rightarrow> atoms_obj \<Rightarrow> calculator \<Rightarrow> world \<Rightarrow> (py_error + pw_output) \<times> world" where
  "launch_solver x obj c w =
     (let w1 = solver_started obj c w in
      case pw_x x (data obj) (params c) (fs w1) of
        (status, left) \<Rightarrow>
          (let w2 = w1\<lparr>fs := (fs w1)(abspath (cwd w1) ''espresso.pwo'' \<mapsto> File left)\<rparr> in
           if status \<noteq> 0 then (Inl CalculationFailed, w2)
           else (case left of
                   SolverOutput out \<Rightarrow> (Inr out, w2)
                 | _ \<Rightarrow> (Inl FormatError, w2))))"

definition get_potential_energy :: "ext \<Rightarrow> ref \<Rightarrow> real py" where
  "get_potential_energy x r =
     py_bind (deref r) (\<lambda>obj w.
       case calc obj of
         None \<Rightarrow> (Inl RuntimeError, w)
       | Some c \<Rightarrow>
           (case results c of
              Some out \<Rightarrow> (Inr (energy out), w)
            | None \<Rightarrow>
                (case launch_solver x obj c w of
                   (Inl e, w1) \<Rightarrow> (Inl e, w1)
                 | (Inr out, w1) \<Rightarrow>
                     (Inr (energy out),
                      w1\<lparr>heap := (heap w1)[r := obj\<lparr>calc := Some (c\<lparr>results := Some out\<rparr>)\<rparr>]\<rparr>))))"

text \<open>The atoms carry no momenta, so the total energy is the potential energy.\<close>

definition get_total_energy :: "ext \<Rightarrow> ref \<Rightarrow> real py" where
  "get_total_energy x r = get_potential_energy x r"

definition get_fermi_level :: "ref \<Rightarrow> real py" where
  "get_fermi_level r =
     py_bind (deref r) (\<lambda>obj w.
       case calc obj of
         None \<Rightarrow> (Inl RuntimeError, w)
       | Some c \<Rightarrow>
           (case results c of
              None \<Rightarrow> (Inl RuntimeError, w)
            | Some out \<Rightarrow> (Inr (fermi out), w)))"

text \<open>
  Subtraction of two \<open>n \<times> 3\<close> arrays: elementwise when the row counts agree, a single row
  is broadcast, anything else is an error.
\<close>

definition sub3 :: "position \<Rightarrow> position \<Rightarrow> position" where
  "sub3 a b = (case a of (a1, a2, a3) \<Rightarrow> case b of (b1, b2, b3) \<Rightarrow> (a1 - b1, a2 - b2, a3 - b3))"

definition np_subtract :: "position list \<Rightarrow> position list \<Rightarrow> py_error + position list" where
  "np_subtract a b =
     (if length a = length b then Inr (map2 sub3 a b)
      else if length a = 1 then Inr (map (sub3 (hd a)) b)
      else if length b = 1 then Inr (map (\<lambda>row. sub3 row (hd b)) a)
      else Inl ValueError)"

section \<open>The cells of the notebook\<close>

definition tmpdir :: string where
  "tmpdir = ''/tmp/jupiter/''"

definition mcstas_outdir :: string where
  "mcstas_outdir = ''mcstas_output''"

definition CIF_file :: string where
  "CIF_file = ''1527603.cif''"

definition pseudo_dir :: string where
  "pseudo_dir = tmpdir @ ''/pseudo/''"

definition ase_outfile :: string where
  "ase_outfile = ''output.cif''"

definition hklfile :: string where
  "hklfile = ase_outfile @ ''.hkl''"

text \<open>Lines 50-54: the search path for executables.\<close>

definition cell_path :: "unit py" where
  "cell_path =
     py_bind (environ_get ''HOME'') (\<lambda>home.
     let QE_bin_path = home @ ''/PANOSC/bin'' in
     py_bind (environ_get ''PATH'') (\<lambda>p1.
     py_bind (environ_set ''PATH'' (p1 @ '':'' @ QE_bin_path)) (\<lambda>_.
     py_bind (environ_get ''PATH'') (\<lambda>p2.
     environ_set ''PATH'' (p2 @ '':/usr/lib64/mpich/bin:'')))))"

text \<open>Lines 81-85: the scratch directory and, inside it, the simulation output directory.\<close>

definition cell_tmpdir :: "unit py" where
  "cell_tmpdir =
     py_bind (os_makedirs tmpdir True) (\<lambda>_.
     py_bind (os_chdir tmpdir) (\<lambda>_.
     os_makedirs mcstas_outdir True))"

text \<open>Lines 121-123: the structure file is fetched with one \<^verbatim>\<open>wget\<close>.\<close>

definition cell_fetch :: "ext \<Rightarrow> int py" where
  "cell_fetch x = os_system x (''wget -c https://www.crystallography.net/cod/'' @ CIF_file)"

text \<open>
  Lines 141-148: two pseudopotential files are fetched into the pseudopotential directory;
  the variable \<^verbatim>\<open>pseudopotfile\<close> names the first one while it is fetched and is then
  reassigned. The cell's result is the value the variable has when the cell ends.
\<close>

definition cell_pseudo :: "ext \<Rightarrow> string py" where
  "cell_pseudo x =
     (let pseudopotfile = ''N.pbe-n-kjpaw_psl.1.0.0.UPF'' in
      py_bind (os_makedirs pseudo_dir True) (\<lambda>_.
      py_bind (os_chdir pseudo_dir) (\<lambda>_.
      py_bind (os_system x (''wget -c https://www.quantum-espresso.org/upf_files/'' @ pseudopotfile)) (\<lambda>_.
      py_bind (os_system x ''wget -c https://raw.githubusercontent.com/PaNOSC-ViNYL/workshop2020/team2/demo/team2/N.pbe-n-radius_5.UPF'') (\<lambda>_.
      py_bind (os_chdir tmpdir) (\<lambda>_.
      let pseudopotfile = ''N.pbe-n-radius_5.UPF'' in
      py_return pseudopotfile))))))"

text \<open>Lines 187-191: the structure is read into a new object, \<^verbatim>\<open>atomCIF\<close>.\<close>

definition cell_read :: "ref py" where
  "cell_read = io_read CIF_file"

text \<open>
  Lines 227-252: the solver configuration is built from the current value of
  \<^verbatim>\<open>pseudopotfile\<close>, \<^verbatim>\<open>atom\<close> becomes a second name for the object
  \<^verbatim>\<open>atomCIF\<close>, and the calculator is attached to it.
\<close>

definition Espresso :: "string \<Rightarrow> espresso" where
  "Espresso pseudopotfile =
     \<lparr>pseudopotentials = [(''N'', pseudopotfile)],
      tstress = True,
      tprnfor = True,
      kpts = (6, 6, 6),
      ecutrho = 480,
      ecutwfc = 60,
      ibrav = 0,
      nat_arg = 8,
      ntyp = 1,
      calculation = ''relax'',
      occupations = ''smearing'',
      smearing = ''cold'',
      degauss = 0.001,
      outdir = tmpdir,
      pseudo_dir_arg = pseudo_dir,
      conv_thr = 1 / 10 ^ 7,
      mixing_mode = ''plain'',
      electron_maxstep = 80,
      mixing_beta = 0.5,
      ion_dynamics = ''bfgs''\<rparr>"

definition cell_calc :: "string \<Rightarrow> ref \<Rightarrow> ref py" where
  "cell_calc pseudopotfile atomCIF =
     (let calc = Espresso pseudopotfile;
          atom = atomCIF
      in py_bind (set_calc atom calc) (\<lambda>_. py_return atom))"

text \<open>
  Lines 279-284: the energies and the Fermi level are computed and printed. The cell's
  result is what it prints. \<^verbatim>\<open>calc\<close> is the calculator attached to \<^verbatim>\<open>atom\<close>.
\<close>

definition cell_energy :: "ext \<Rightarrow> ref \<Rightarrow> (real \<times> real \<times> real) py" where
  "cell_energy x atom =
     py_bind (get_potential_energy x atom) (\<lambda>potential_energy.
     py_bind (get_total_energy x atom) (\<lambda>total_energy.
     py_bind (get_fermi_level atom) (\<lambda>fermi_level.
     py_return (potential_energy, total_energy, fermi_level))))"

text \<open>
  Lines 300-302: the last positions in the solver's output file minus the positions of
  \<^verbatim>\<open>atom\<close>. The cell's result is the displayed matrix.
\<close>

definition cell_diff :: "ref \<Rightarrow> (position list) py" where
  "cell_diff atom =
     py_bind (io_read ''espresso.pwo'') (\<lambda>atomsOUT.
     py_bind (get_positions atomsOUT) (\<lambda>after.
     py_bind (get_positions atom) (\<lambda>current.
     py_result (np_subtract after current))))"

text \<open>Lines 318-320: the structure held by \<^verbatim>\<open>atom\<close> is written out.\<close>

definition cell_write :: "ref \<Rightarrow> unit py" where
  "cell_write atom = io_write ase_outfile atom"

text \<open>Line 330: the conversion utility is run; its exit status is the cell's value.\<close>

definition cell_cif2hkl :: "ext \<Rightarrow> int py" where
  "cell_cif2hkl x = os_system x (''cif2hkl '' @ ase_outfile)"

text \<open>Lines 366-378: the simulation scripts are cloned and entered.\<close>

definition cell_clone :: "ext \<Rightarrow> int py" where
  "cell_clone x = os_system x ''git clone git@github.com:PaNOSC-ViNYL/McStas_ViNYL_concept.git''"

definition cell_mcstas_dir :: "unit py" where
  "cell_mcstas_dir =
     py_bind (os_chdir ''McStas_ViNYL_concept'') (\<lambda>_.
     os_makedirs mcstas_outdir True)"

text \<open>Lines 394-401: the imports; whether the modules are found is not the notebook's doing.\<close>

definition cell_imports :: "ext \<Rightarrow> unit py" where
  "cell_imports x w =
     (case import_modules x (cwd w) (fs w) of
        Some e \<Rightarrow> (Inl e, w)
      | None \<Rightarrow> (Inr (), w))"


subsection \<open>The instrument (lines 410-486)\<close>

text \<open>
  Modelled from the spec: \<^verbatim>\<open>add_component(name, type, position_spec, orientation_spec,
  params) -> ComponentHandle\<close> appends a component to the ordered sequence; a relative
  placement is kept by name and is not validated at assembly time. A handle is the
  component's name; assigning an attribute of the handle records a parameter of that
  component. Comments of instrument parameters are not kept.
\<close>

definition McStas_instr :: "string \<Rightarrow> instrument" where
  "McStas_instr name =
     \<lparr>instr_name = name, parameters = [], declare_vars = [], initialize = [],
      components_of = []\<rparr>"

definition add_parameter :: "string \<Rightarrow> real \<Rightarrow> instrument \<Rightarrow> instrument" where
  "add_parameter name v i = i\<lparr>parameters := parameters i @ [(name, v)]\<rparr>"

definition add_declare_var :: "string \<Rightarrow> string \<Rightarrow> instrument \<Rightarrow> instrument" where
  "add_declare_var ty name i = i\<lparr>declare_vars := declare_vars i @ [(ty, name)]\<rparr>"

definition append_initialize :: "string \<Rightarrow> instrument \<Rightarrow> instrument" where
  "append_initialize line i = i\<lparr>initialize := initialize i @ [line]\<rparr>"

definition origin :: "pyval list" where
  "origin = [Num 0, Num 0, Num 0]"

definition add_component ::
  "string \<Rightarrow> string \<Rightarrow> pyval list option \<Rightarrow> pyval list option \<Rightarrow> string option \<Rightarrow>
   instrument \<Rightarrow> instrument" where
  "add_component name ty at_arg rot_arg rel_arg i =
     i\<lparr>components_of := components_of i @
        [\<lparr>cname = name, ctype = ty,
          AT = (case at_arg of None \<Rightarrow> origin | Some v \<Rightarrow> v),
          AT_RELATIVE = rel_arg,
          ROTATED = (case rot_arg of None \<Rightarrow> origin | Some v \<Rightarrow> v),
          ROTATED_RELATIVE = rel_arg,
          SPLIT = None,
          attrs = []\<rparr>]\<rparr>"

definition on_component :: "string \<Rightarrow> (component \<Rightarrow> component) \<Rightarrow> instrument \<Rightarrow> instrument" where
  "on_component name g i =
     i\<lparr>components_of := map (\<lambda>c. if cname c = name then g c else c) (components_of i)\<rparr>"

definition set_attr :: "string \<Rightarrow> string \<Rightarrow> pyval \<Rightarrow> instrument \<Rightarrow> instrument" where
  "set_attr name k v = on_component name (\<lambda>c. c\<lparr>attrs := attrs c @ [(k, v)]\<rparr>)"

definition set_ROTATED :: "string \<Rightarrow> pyval list \<Rightarrow> string option \<Rightarrow> instrument \<Rightarrow> instrument" where
  "set_ROTATED name rot rel = on_component name (\<lambda>c. c\<lparr>ROTATED := rot, ROTATED_RELATIVE := rel\<rparr>)"

definition set_SPLIT :: "string \<Rightarrow> nat \<Rightarrow> instrument \<Rightarrow> instrument" where
  "set_SPLIT name n = on_component name (\<lambda>c. c\<lparr>SPLIT := Some n\<rparr>)"

text \<open>A Python string that holds a C string literal: the text between double quotes.\<close>

definition quoted :: "string \<Rightarrow> string" where
  "quoted s = CHR 0x22 # s @ [CHR 0x22]"

definition guide_width :: real where "guide_width = 0.04"
definition guide_height :: real where "guide_height = 0.08"
definition guide_length :: real where "guide_length = 10"
definition detector_height :: real where "detector_height = 0.2"
definition detector_radius :: real where "detector_radius = 1.0"

definition powder_diffractometer :: instrument where
  "powder_diffractometer =
     foldl (\<lambda>i step. step i) (McStas_instr ''powder_diffractometer'')
      [add_parameter ''wavelength'' 1.2,
       add_component ''Source'' ''Source_Maxwell_3'' None None None,
       set_attr ''Source'' ''xwidth'' (Num 0.12),
       set_attr ''Source'' ''yheight'' (Num 0.12),
       set_attr ''Source'' ''Lmin'' (Str ''wavelength*0.94''),
       set_attr ''Source'' ''Lmax'' (Str ''wavelength*1.06''),
       set_attr ''Source'' ''dist'' (Num 3.0),
       set_attr ''Source'' ''focus_xw'' (Num guide_width),
       set_attr ''Source'' ''focus_yh'' (Num guide_height),
       set_attr ''Source'' ''T1'' (Num 683.7),
       set_attr ''Source'' ''I1'' (Num (0.5874 * 10 ^ 13)),
       set_attr ''Source'' ''T2'' (Num 257.7),
       set_attr ''Source'' ''I2'' (Num (2.5099 * 10 ^ 13)),
       set_attr ''Source'' ''T3'' (Num 16.7),
       set_attr ''Source'' ''I3'' (Num (1.0343 * 10 ^ 12)),
       add_component ''guide'' ''Guide_gravity'' (Some [Num 0, Num 0, Num 3.0]) None (Some ''Source''),
       set_attr ''guide'' ''w1'' (Num guide_width),
       set_attr ''guide'' ''h1'' (Num guide_height),
       set_attr ''guide'' ''l'' (Num guide_length),
       set_attr ''guide'' ''m'' (Num 3.0),
       set_attr ''guide'' ''G'' (Num (- 9.82)),
       add_component ''guide_end'' ''Arm'' (Some [Num 0, Num 0, Num guide_length]) None (Some ''guide''),
       add_component ''mono_pos'' ''Arm'' (Some [Num 0, Num 0, Num 0.2]) None (Some ''guide_end''),
       add_parameter ''mono_Q'' 3.355,
       add_declare_var ''double'' ''mono_theta'',
       add_declare_var ''double'' ''wavevector'',
       append_initialize ''wavevector = 2*PI/wavelength;'',
       append_initialize ''mono_theta = RAD2DEG*asin(0.5*mono_Q/wavevector);'',
       add_component ''mono'' ''Monochromator_curved'' (Some [Num 0, Num 0, Num 0]) None (Some ''mono_pos''),
       set_attr ''mono'' ''Q'' (Str ''mono_Q''),
       set_attr ''mono'' ''height'' (Num 0.1),
       set_attr ''mono'' ''zwidth'' (Num 0.03),
       set_attr ''mono'' ''NH'' (Num 3),
       set_attr ''mono'' ''NV'' (Num 11),
       set_attr ''mono'' ''RV'' (Num 1.5),
       set_ROTATED ''mono'' [Num 0, Str ''mono_theta'', Num 0] (Some ''mono_pos''),
       add_component ''mono_out'' ''Arm'' (Some [Num 0, Num 0, Num 0])
         (Some [Num 0, Str ''mono_theta'', Num 0]) (Some ''mono''),
       add_component ''L_mon'' ''L_monitor'' (Some [Num 0, Num 0, Num 1.0]) None (Some ''mono_out''),
       set_attr ''L_mon'' ''Lmin'' (Str ''wavelength*0.94''),
       set_attr ''L_mon'' ''Lmax'' (Str ''wavelength*1.06''),
       set_attr ''L_mon'' ''filename'' (Str (quoted ''L_mon.dat'')),
       set_attr ''L_mon'' ''xwidth'' (Num 0.1),
       set_attr ''L_mon'' ''yheight'' (Num 0.1),
       set_attr ''L_mon'' ''nL'' (Num 150),
       add_component ''sample'' ''PowderN'' (Some [Num 0, Num 0, Num 1.5]) None (Some ''mono_out''),
       set_attr ''sample'' ''radius'' (Num 0.008),
       set_attr ''sample'' ''yheight'' (Num 0.03),
       set_attr ''sample'' ''reflections'' (Str (quoted ''../output.cif.hkl'')),
       set_attr ''sample'' ''barns'' (Num 0),
       set_attr ''sample'' ''d_phi''
         (Num (arctan (detector_height / detector_radius) * 180 / 3.14159)),
       set_attr ''sample'' ''tth_sign'' (Num 1.0),
       set_SPLIT ''sample'' 1000,
       add_component ''monitor'' ''Monitor_nD'' None None (Some ''sample''),
       set_attr ''monitor'' ''xwidth'' (Num (2.0 * detector_radius)),
       set_attr ''monitor'' ''yheight'' (Num detector_height),
       set_attr ''monitor'' ''options'' (Str (quoted ''banana, theta limits=[10,170], bins=320'')),
       set_attr ''monitor'' ''filename'' (Str (quoted ''banana.dat''))]"

text \<open>
  The two initialisation statements, as functions of the instrument parameters they read.
  Modelled from the spec: \<^verbatim>\<open>PI\<close> and \<^verbatim>\<open>RAD2DEG\<close> are constants of the simulation
  engine, \<open>\<pi>\<close> and the factor from radians to degrees; the arithmetic is that of the
  real numbers.
\<close>

definition PI :: real where
  "PI = pi"

definition RAD2DEG :: real where
  "RAD2DEG = 180 / PI"

definition wavevector_init :: "real \<Rightarrow> real" where
  "wavevector_init wavelength = 2 * PI / wavelength"

definition mono_theta_init :: "real \<Rightarrow> real \<Rightarrow> real" where
  "mono_theta_init mono_Q wavelength = RAD2DEG * arcsin (0.5 * mono_Q / wavevector_init wavelength)"

subsection \<open>The simulation run (lines 495-498)\<close>

definition digit_char :: "nat \<Rightarrow> char" where
  "digit_char d = ''0123456789'' ! d"

fun decimal :: "nat \<Rightarrow> string" where
  "decimal n = (if n < 10 then [digit_char n] else decimal (n div 10) @ [digit_char (n mod 10)])"

definition numbered :: "string \<Rightarrow> nat \<Rightarrow> string" where
  "numbered name k = name @ ''_'' @ decimal k"

text \<open>
  Modelled from the spec: the output folder is auto-incremented if present. The search for
  the first numbered name that is not present is a loop; \<open>None\<close> is the loop that never
  ends.
\<close>

partial_function (option) next_free :: "(string \<Rightarrow> bool) \<Rightarrow> string \<Rightarrow> nat \<Rightarrow> string option" where
  "next_free present name k =
     (if present (numbered name k) then next_free present name (Suc k)
      else Some (numbered name k))"

definition data_folder_name :: "string \<Rightarrow> bool \<Rightarrow> world \<Rightarrow> string option" where
  "data_folder_name foldername increment_folder_name w =
     (if increment_folder_name \<and> exists_p (fs w) (abspath (cwd w) foldername)
      then next_free (\<lambda>n. exists_p (fs w) (abspath (cwd w) n)) foldername 0
      else Some foldername)"

definition write_datasets :: "path \<Rightarrow> dataset list \<Rightarrow> filesystem \<Rightarrow> filesystem" where
  "write_datasets folder ds f =
     foldl (\<lambda>g d. g(folder @ [fst d] \<mapsto> File (Histogram (snd d)))) (f(folder \<mapsto> Dir)) ds"

text \<open>
  Modelled from the spec: \<^verbatim>\<open>run(instrument, particle_count, parallelism, output_dir,
  increment_if_exists) -> DatasetCollection\<close> is a blocking call that hands the instrument
  to the external engine and collects each monitor's histogram from the output folder.
  The spec does not say what happens without the numbering policy; the notebook always
  enables it.
\<close>

definition run_full_instrument ::
  "ext \<Rightarrow> instrument \<Rightarrow> real \<Rightarrow> nat \<Rightarrow> string \<Rightarrow> bool \<Rightarrow> world \<Rightarrow>
   ((py_error + dataset list) \<times> world) option" where
  "run_full_instrument x instr ncount mpi foldername increment_folder_name w =
     (case data_folder_name foldername increment_folder_name w of
        None \<Rightarrow> None
      | Some name \<Rightarrow>
          (let folder = abspath (cwd w) name;
               w1 = w\<lparr>calls := calls w @ [Engine folder]\<rparr>
           in case mcrun x instr ncount mpi (cwd w) (fs w) of
                Inl e \<Rightarrow> Some (Inl e, w1)
              | Inr ds \<Rightarrow> Some (Inr ds, w1\<lparr>fs := write_datasets folder ds (fs w)\<rparr>)))"

text \<open>
  The cell starts with the line \<^verbatim>\<open>%%capture # the output of McStas ...\<close> (line 495).
  The text after the name of a cell magic is its argument line, and a \<^verbatim>\<open>#\<close> in it is an
  argument like any other word. \<^verbatim>\<open>%%capture\<close> takes its three flags and at most one
  name; given anything more it raises a usage error and the body of the cell is not run.
\<close>

fun split_space :: "string \<Rightarrow> string list" where
  "split_space [] = [[]]"
| "split_space (c # cs) =
     (if c = CHR '' '' then [] # split_space cs
      else (case split_space cs of
              [] \<Rightarrow> [[c]]
            | x # xs \<Rightarrow> (c # x) # xs))"

definition capture_accepts :: "string \<Rightarrow> bool" where
  "capture_accepts line =
     (let args = filter (\<lambda>a. a \<noteq> []) (split_space line);
          names = filter (\<lambda>a. a \<notin> set [''--no-stderr'', ''--no-stdout'', ''--no-display'']) args
      in length names \<le> 1 \<and> list_all (\<lambda>a. take 1 a \<noteq> ''-'') names)"

definition capture ::
  "string \<Rightarrow> (world \<Rightarrow> ((py_error + 'a) \<times> world) option) \<Rightarrow>
   world \<Rightarrow> ((py_error + 'a) \<times> world) option" where
  "capture line body w = (if capture_accepts line then body w else Some (Inl UsageError, w))"

definition cell_run :: "ext \<Rightarrow> instrument \<Rightarrow> world \<Rightarrow> ((py_error + dataset list) \<times> world) option" where
  "cell_run x Instr =
     capture ''# the output of McStas is verbose and unneccesary for us.''
       (run_full_instrument x Instr 5000000 4 mcstas_outdir True)"

subsection \<open>The whole notebook, run from top to bottom\<close>

text \<open>
  What only displays something (\<^verbatim>\<open>print\<close>, \<^verbatim>\<open>os.listdir()\<close>, the structure
  viewer, the plot) changes nothing and is left out of every cell. An exception in a cell
  ends the run. \<open>stage_setup\<close> is the initial setup (lines 50-85), which \<open>stage_dft\<close>
  starts with; \<open>stage_dft\<close> runs the cells up to the exported structure,
  \<open>stage_mcstas\<close> the ones from the conversion utility to the simulation.
\<close>

definition stage_setup :: "unit py" where
  "stage_setup = py_bind cell_path (\<lambda>_. cell_tmpdir)"

definition stage_dft :: "ext \<Rightarrow> unit py" where
  "stage_dft x =
     py_bind cell_path (\<lambda>_.
     py_bind cell_tmpdir (\<lambda>_.
     py_bind (cell_fetch x) (\<lambda>_.
     py_bind (cell_pseudo x) (\<lambda>pseudopotfile.
     py_bind cell_read (\<lambda>atomCIF.
     py_bind (cell_calc pseudopotfile atomCIF) (\<lambda>atom.
     py_bind (cell_energy x atom) (\<lambda>_.
     py_bind (cell_diff atom) (\<lambda>_.
     cell_write atom))))))))"

definition stage_mcstas_setup :: "ext \<Rightarrow> unit py" where
  "stage_mcstas_setup x =
     py_bind (cell_cif2hkl x) (\<lambda>_.
     py_bind (cell_clone x) (\<lambda>_.
     py_bind cell_mcstas_dir (\<lambda>_.
     cell_imports x)))"

definition stage_mcstas :: "ext \<Rightarrow> world \<Rightarrow> ((py_error + dataset list) \<times> world) option" where
  "stage_mcstas x w =
     (case stage_mcstas_setup x w of
        (Inl e, w') \<Rightarrow> Some (Inl e, w')
      | (Inr u, w') \<Rightarrow> cell_run x powder_diffractometer w')"

definition workflow :: "ext \<Rightarrow> world \<Rightarrow> ((py_error + dataset list) \<times> world) option" where
  "workflow x w =
     (case stage_dft x w of
        (Inl e, w') \<Rightarrow> Some (Inl e, w')
      | (Inr u, w') \<Rightarrow> stage_mcstas x w')"


text \<open>
  A file system shaped like a tree: the parent of every entry is a directory.
\<close>

definition tree_like :: "filesystem \<Rightarrow> bool" where
  "tree_like f = (\<forall>p. f p \<noteq> None \<longrightarrow> isdir f (butlast p))"



section \<open>Concrete surroundings for the example runs\<close>

text \<open>A two-atom structure, and a solver output that moves the second atom.\<close>

definition example_atoms :: atoms_data where
  "example_atoms = \<lparr>symbols = [''N'', ''N''], positions = [(0, 0, 0), (1, 1, 1)]\<rparr>"

definition relaxed_atoms :: atoms_data where
  "relaxed_atoms = \<lparr>symbols = [''N'', ''N''], positions = [(0, 0, 0), (1, 1, 2)]\<rparr>"

definition relaxed_out :: pw_output where
  "relaxed_out = \<lparr>final = relaxed_atoms, energy = - 5, fermi = 1\<rparr>"

text \<open>
  A machine on which the structure download and the clone work and every other command
  fails without writing anything, and a machine without network.
\<close>

definition lab_shell :: "string \<Rightarrow> (string \<rightharpoonup> string) \<Rightarrow> path \<Rightarrow> filesystem \<Rightarrow> int \<times> filesystem" where
  "lab_shell cmd env wd f =
     (if cmd = ''wget -c https://www.crystallography.net/cod/1527603.cif''
      then (0, f(wd @ [''1527603.cif''] \<mapsto> File (Structure example_atoms)))
      else if cmd = ''git clone git@github.com:PaNOSC-ViNYL/McStas_ViNYL_concept.git''
      then (0, f(wd @ [''McStas_ViNYL_concept''] \<mapsto> Dir))
      else (127, f))"

definition offline_shell :: "string \<Rightarrow> (string \<rightharpoonup> string) \<Rightarrow> path \<Rightarrow> filesystem \<Rightarrow> int \<times> filesystem" where
  "offline_shell cmd env wd f = (4, f)"

text \<open>
  In \<open>lab\<close> the solver ends with status 0. In \<open>lab_stalled\<close> it ends with status 2,
  the status with which \<^verbatim>\<open>pw.x\<close> reports that the self-consistency cycle did not
  converge, and leaves the same complete output.
\<close>

definition lab :: ext where
  "lab = \<lparr>shell = lab_shell,
          pw_x = (\<lambda>a c f. (0, SolverOutput relaxed_out)),
          import_modules = (\<lambda>wd f. None),
          mcrun = (\<lambda>i n m wd f. Inr [(''banana.dat'', [1, 2])])\<rparr>"

definition lab_stalled :: ext where
  "lab_stalled = lab\<lparr>pw_x := (\<lambda>a c f. (2, SolverOutput relaxed_out))\<rparr>"

definition offline :: ext where
  "offline = lab\<lparr>shell := offline_shell\<rparr>"

definition start :: world where
  "start = \<lparr>environ = [''HOME'' \<mapsto> ''/root'', ''PATH'' \<mapsto> ''/usr/bin''],
            cwd = [], fs = Map.empty, heap = [], calls = []\<rparr>"

text \<open>A state in which a structure has been read and nothing else has happened.\<close>

definition loaded :: world where
  "loaded = start\<lparr>heap := [\<lparr>data = example_atoms, calc = None\<rparr>]\<rparr>"

text \<open>
  A state in which two earlier runs have left their folders behind, the first with a
  histogram in it.
\<close>

definition rerun :: world where
  "rerun = \<lparr>environ = Map.empty, cwd = [''clone''],
            fs = [[''clone''] \<mapsto> Dir,
                  [''clone'', ''mcstas_output''] \<mapsto> Dir,
                  [''clone'', ''mcstas_output'', ''banana.dat''] \<mapsto> File (Histogram [7]),
                  [''clone'', ''mcstas_output_0''] \<mapsto> Dir],
            heap = [], calls = []\<rparr>"

section \<open>Lemmas about the runtime and the cells\<close>

text \<open>
  The lemmas of this section are used by the theorems of the next one: how
  \<^verbatim>\<open>os.makedirs\<close> treats what is already there, what the cells leave behind, that the
  search for a free folder name ends on a finite file system at the first free number,
  that no cell before the simulation run invokes the engine, and bounds for \<open>\<pi>\<close> and
  the sine from the Maclaurin series.
\<close>

lemma mkdir_preserves: "mkdir p f = (r, f') \<Longrightarrow> f q \<noteq> None \<Longrightarrow> f' q = f q"
  by (auto simp: mkdir_def exists_p_def split: if_splits)

lemma makedirs_preserves:
  "makedirs base name ok f = (r, f') \<Longrightarrow> f q \<noteq> None \<Longrightarrow> f' q = f q"
proof (induction base name ok f arbitrary: r f' rule: makedirs.induct)
  case (1 base name ok f)
  show ?case
  proof (cases "butlast name \<noteq> [] \<and> \<not> exists_p f (base @ butlast name)")
    case True
    obtain r1 f1 where inner: "makedirs base (butlast name) ok f = (r1, f1)"
      by (cases "makedirs base (butlast name) ok f")
    from "1.IH"[OF refl True inner "1.prems"(2)] have f1: "f1 q = f q" .
    from "1.prems"(1) True inner show ?thesis
      using f1 "1.prems"(2)
      by (subst (asm) makedirs.simps)
         (auto simp: Let_def split: sum.splits if_splits prod.splits dest!: mkdir_preserves[where q=q])
  next
    case False
    from "1.prems" False show ?thesis
      by (subst (asm) makedirs.simps)
         (auto simp: Let_def split: sum.splits if_splits prod.splits dest!: mkdir_preserves[where q=q])
  qed
qed

lemma mkdir_cases:
  "mkdir p f = (r, f') \<Longrightarrow>
     (r = Inr () \<and> f' = f(p \<mapsto> Dir) \<and> \<not> exists_p f p) \<or> (f' = f \<and> (\<exists>e. r = Inl e) \<and> (r = Inl FileExistsError \<longleftrightarrow> exists_p f p))"
  by (auto simp: mkdir_def split: if_splits)

lemma makedirs_isdir:
  "makedirs base name True f = (Inr (), f') \<Longrightarrow> isdir f' (base @ name)"
  by (subst (asm) makedirs.simps)
     (auto simp: Let_def isdir_def split: sum.splits if_splits prod.splits dest!: mkdir_cases)

lemma makedirs_exists_error:
  "makedirs base name ok f = (Inl FileExistsError, f') \<Longrightarrow> exists_p f' (base @ name)"
  by (subst (asm) makedirs.simps)
     (auto simp: Let_def split: sum.splits if_splits prod.splits dest!: mkdir_cases)

lemma makedirs_present:
  assumes "isdir f (base @ name)" "butlast name = [] \<or> exists_p f (base @ butlast name)"
  shows "makedirs base name True f = (Inr (), f)"
  using assms
  by (subst makedirs.simps) (auto simp: Let_def mkdir_def isdir_def exists_p_def)

lemma exists_p_mono: "exists_p f p \<Longrightarrow> (\<And>q. f q \<noteq> None \<Longrightarrow> f' q = f q) \<Longrightarrow> exists_p f' p"
  by (auto simp: exists_p_def)

lemma isdir_mono: "isdir f p \<Longrightarrow> (\<And>q. f q \<noteq> None \<Longrightarrow> f' q = f q) \<Longrightarrow> isdir f' p"
  by (auto simp: isdir_def)

lemma abspath_pseudo_dir [simp]: "abspath wd pseudo_dir = [''tmp'', ''jupiter'', ''pseudo'']"
  by (simp add: abspath_def base_of_def isabs_def components_def pseudo_dir_def tmpdir_def)

lemma abspath_tmpdir [simp]: "abspath wd tmpdir = [''tmp'', ''jupiter'']"
  by (simp add: abspath_def base_of_def isabs_def components_def tmpdir_def)

lemma cell_pseudo_result:
  assumes "cell_pseudo x w = (Inr pseudopotfile, w1)"
  shows "pseudopotfile = ''N.pbe-n-radius_5.UPF'' \<and>
         calls w1 = calls w @
           [Shell ''wget -c https://www.quantum-espresso.org/upf_files/N.pbe-n-kjpaw_psl.1.0.0.UPF''
              [''tmp'', ''jupiter'', ''pseudo''],
            Shell ''wget -c https://raw.githubusercontent.com/PaNOSC-ViNYL/workshop2020/team2/demo/team2/N.pbe-n-radius_5.UPF''
              [''tmp'', ''jupiter'', ''pseudo'']]"
  using assms
  by (auto simp: cell_pseudo_def py_bind_def py_return_def os_makedirs_def os_chdir_def
        os_system_def Let_def
      split: prod.splits sum.splits if_splits)

lemma cell_calc_result:
  assumes "cell_calc pseudopotfile atomCIF w2 = (Inr atom, w3)"
  shows "atom = atomCIF \<and> atom < length (heap w3) \<and>
         calc (heap w3 ! atom) = Some \<lparr>params = Espresso pseudopotfile, results = None\<rparr>"
  using assms
  by (auto simp: cell_calc_def set_calc_def deref_def py_bind_def py_return_def Let_def
      split: prod.splits sum.splits if_splits)

lemma makedirs_parent:
  assumes "makedirs base name True f = (Inr (), f')"
  shows "butlast name = [] \<or> exists_p f' (base @ butlast name)"
proof (cases "butlast name \<noteq> [] \<and> \<not> exists_p f (base @ butlast name)")
  case False
  moreover have "\<And>q. f q \<noteq> None \<Longrightarrow> f' q = f q" using assms by (rule makedirs_preserves)
  ultimately show ?thesis by (auto intro: exists_p_mono)
next
  case True
  obtain r1 f1 where inner: "makedirs base (butlast name) True f = (r1, f1)"
    by (cases "makedirs base (butlast name) True f")
  have ex1: "exists_p f1 (base @ butlast name)"
  proof (cases r1)
    case (Inl e)
    with assms True inner have "e = FileExistsError"
      by (subst (asm) makedirs.simps) (auto simp: Let_def split: if_splits)
    with Inl inner show ?thesis by (auto dest: makedirs_exists_error)
  next
    case (Inr u)
    with inner have "isdir f1 (base @ butlast name)" by (auto dest: makedirs_isdir)
    then show ?thesis by (auto simp: isdir_def exists_p_def)
  qed
  have step: "\<And>q. f1 q \<noteq> None \<Longrightarrow> f' q = f1 q"
    using assms True inner
    by (subst (asm) makedirs.simps)
       (auto simp: Let_def exists_p_def split: sum.splits if_splits prod.splits dest!: mkdir_cases)
  from ex1 step have "exists_p f' (base @ butlast name)" by (rule exists_p_mono)
  then show ?thesis ..
qed

lemma makedirs_again:
  assumes "makedirs base name True f = (Inr (), f')"
    and ext: "\<And>q. f' q \<noteq> None \<Longrightarrow> g q = f' q"
  shows "makedirs base name True g = (Inr (), g)"
proof (rule makedirs_present)
  from assms(1) have "isdir f' (base @ name)" by (rule makedirs_isdir)
  then show "isdir g (base @ name)" using ext by (rule isdir_mono)
  from makedirs_parent[OF assms(1)]
  show "butlast name = [] \<or> exists_p g (base @ butlast name)"
    using ext by (auto intro: exists_p_mono)
qed

lemma os_makedirs_again:
  assumes "os_makedirs name True w = (Inr (), w1)"
    and same: "base_of (cwd w2) name = base_of (cwd w) name" and ext: "\<And>q. fs w1 q \<noteq> None \<Longrightarrow> fs w2 q = fs w1 q"
  shows "os_makedirs name True w2 = (Inr (), w2)"
proof -
  from assms(1) obtain f' where nm: "name \<noteq> []"
    and m: "makedirs (base_of (cwd w) name) (components name) True (fs w) = (Inr (), f')"
    and w1: "w1 = w\<lparr>fs := f'\<rparr>"
    by (auto simp: os_makedirs_def split: if_splits prod.splits)
  from w1 ext have "\<And>q. f' q \<noteq> None \<Longrightarrow> fs w2 q = f' q" by simp
  with m have "makedirs (base_of (cwd w) name) (components name) True (fs w2) = (Inr (), fs w2)"
    by (rule makedirs_again)
  with nm same show ?thesis by (simp add: os_makedirs_def)
qed

lemma os_makedirs_frame:
  assumes "os_makedirs name ok w = (r, w1)"
  shows "cwd w1 = cwd w \<and> environ w1 = environ w \<and> heap w1 = heap w \<and> calls w1 = calls w
         \<and> (\<forall>q. fs w q \<noteq> None \<longrightarrow> fs w1 q = fs w q)"
  using assms
  by (auto simp: os_makedirs_def split: if_splits prod.splits dest: makedirs_preserves)

lemma os_makedirs_isdir:
  assumes "os_makedirs name True w = (Inr (), w1)"
  shows "isdir (fs w1) (abspath (cwd w) name)"
  using assms
  by (auto simp: os_makedirs_def abspath_def split: if_splits prod.splits dest: makedirs_isdir)

lemma os_chdir_result:
  assumes "os_chdir name w = (Inr (), w1)"
  shows "w1 = w\<lparr>cwd := abspath (cwd w) name\<rparr>"
  using assms by (auto simp: os_chdir_def Let_def split: if_splits)

lemma os_chdir_there:
  assumes "isdir (fs w) (abspath (cwd w) name)" "cwd w = abspath (cwd w) name"
  shows "os_chdir name w = (Inr (), w)"
  using assms by (auto simp: os_chdir_def Let_def isdir_def exists_p_def)

lemma cell_tmpdir_steps:
  assumes "cell_tmpdir w = (Inr (), w3)"
  obtains w1 w2 where "os_makedirs tmpdir True w = (Inr (), w1)"
    "os_chdir tmpdir w1 = (Inr (), w2)" "os_makedirs mcstas_outdir True w2 = (Inr (), w3)"
  using assms
  by (auto simp: cell_tmpdir_def py_bind_def split: prod.splits sum.splits)

lemma cell_tmpdir_idem:
  assumes "cell_tmpdir w = (Inr (), w3)"
  shows "cell_tmpdir w3 = (Inr (), w3)"
proof -
  from assms obtain w1 w2 where s1: "os_makedirs tmpdir True w = (Inr (), w1)"
    and s2: "os_chdir tmpdir w1 = (Inr (), w2)"
    and s3: "os_makedirs mcstas_outdir True w2 = (Inr (), w3)"
    by (rule cell_tmpdir_steps)
  from s2 have w2: "w2 = w1\<lparr>cwd := [''tmp'', ''jupiter'']\<rparr>"
    by (auto dest: os_chdir_result)
  from os_makedirs_frame[OF s1] have f1: "cwd w1 = cwd w" by simp
  from os_makedirs_frame[OF s3] w2
  have c3: "cwd w3 = [''tmp'', ''jupiter'']"
    and p3: "\<And>q. fs w1 q \<noteq> None \<Longrightarrow> fs w3 q = fs w1 q" by auto
  have d1: "isdir (fs w1) [''tmp'', ''jupiter'']"
    using os_makedirs_isdir[OF s1] by simp
  then have d3: "isdir (fs w3) [''tmp'', ''jupiter'']" using p3 by (rule isdir_mono)
  have a: "os_makedirs tmpdir True w3 = (Inr (), w3)"
    by (rule os_makedirs_again[OF s1]) (auto simp: base_of_def isabs_def tmpdir_def p3)
  have b: "os_chdir tmpdir w3 = (Inr (), w3)"
    by (rule os_chdir_there) (simp_all add: d3 c3)
  have c: "os_makedirs mcstas_outdir True w3 = (Inr (), w3)"
    by (rule os_makedirs_again[OF s3]) (simp_all add: c3 w2)
  from a b c show ?thesis
    by (simp add: cell_tmpdir_def py_bind_def)
qed

lemma cell_tmpdir_frame:
  assumes "cell_tmpdir w = (r, w3)"
  shows "environ w3 = environ w \<and> heap w3 = heap w \<and> calls w3 = calls w
         \<and> (\<forall>q. fs w q \<noteq> None \<longrightarrow> fs w3 q = fs w q)"
proof -
  obtain r1 w1 where s1: "os_makedirs tmpdir True w = (r1, w1)"
    by (cases "os_makedirs tmpdir True w")
  obtain r2 w2 where s2: "os_chdir tmpdir w1 = (r2, w2)"
    by (cases "os_chdir tmpdir w1")
  obtain r3 w3' where s3: "os_makedirs mcstas_outdir True w2 = (r3, w3')"
    by (cases "os_makedirs mcstas_outdir True w2")
  have f2: "environ w2 = environ w1 \<and> heap w2 = heap w1 \<and> calls w2 = calls w1 \<and> fs w2 = fs w1"
    using s2 by (auto simp: os_chdir_def Let_def split: if_splits)
  have "w3 = w1 \<or> w3 = w2 \<or> w3 = w3'"
    using assms s1 s2 s3
    by (auto simp: cell_tmpdir_def py_bind_def split: prod.splits sum.splits)
  then show ?thesis
    using os_makedirs_frame[OF s1] os_makedirs_frame[OF s3] f2 by auto
qed

lemmas py_defs = py_bind_def py_return_def py_result_def

lemmas os_defs = os_makedirs_def os_chdir_def os_system_def environ_get_def environ_set_def
  abspath_def base_of_def isabs_def components_def exists_p_def isdir_def mkdir_def

lemmas cell_defs = cell_path_def cell_tmpdir_def cell_fetch_def cell_pseudo_def cell_read_def
  cell_calc_def cell_energy_def cell_diff_def cell_write_def cell_cif2hkl_def cell_clone_def
  cell_mcstas_dir_def cell_imports_def cell_run_def capture_def capture_accepts_def

lemmas name_defs = tmpdir_def mcstas_outdir_def CIF_file_def pseudo_dir_def ase_outfile_def hklfile_def

lemmas ase_defs = io_read_def new_atoms_def deref_def get_positions_def io_write_def set_calc_def
  solver_started_def launch_solver_def get_potential_energy_def get_total_energy_def get_fermi_level_def np_subtract_def sub3_def

lemmas ex_defs = lab_def lab_stalled_def offline_def rerun_def lab_shell_def offline_shell_def start_def loaded_def
  example_atoms_def relaxed_atoms_def relaxed_out_def

lemma digit_char_inj: "a < 10 \<Longrightarrow> b < 10 \<Longrightarrow> digit_char a = digit_char b \<Longrightarrow> a = b"
proof -
  assume a: "a < 10" and b: "b < 10" and e: "digit_char a = digit_char b"
  have d: "distinct ''0123456789''" by simp
  have "length ''0123456789'' = 10" by simp
  with a b e d show "a = b"
    unfolding digit_char_def by (metis nth_eq_iff_index_eq)
qed

lemma digit_char_not_slash: "d < 10 \<Longrightarrow> CHR ''/'' \<noteq> digit_char d"
proof -
  assume "d < 10"
  then have "digit_char d \<in> set ''0123456789''"
    unfolding digit_char_def by (intro nth_mem) simp
  then show ?thesis by auto
qed

lemma decimal_nonempty: "decimal n \<noteq> []"
  by (subst decimal.simps) simp

lemma decimal_inj: "decimal m = decimal n \<Longrightarrow> m = n"
proof (induction m arbitrary: n rule: decimal.induct)
  case (1 m)
  show ?case
  proof (cases "m < 10")
    case True
    show ?thesis
    proof (cases "n < 10")
      case nlt: True
      from "1.prems" True nlt have "digit_char m = digit_char n"
        by (subst (asm) decimal.simps, subst (asm) (2) decimal.simps) simp
      with True nlt show ?thesis by (rule digit_char_inj)
    next
      case False
      from "1.prems" True False have "[digit_char m] = decimal (n div 10) @ [digit_char (n mod 10)]"
        by (subst (asm) decimal.simps, subst (asm) (2) decimal.simps) simp
      then show ?thesis using decimal_nonempty[of "n div 10"] by simp
    qed
  next
    case False
    show ?thesis
    proof (cases "n < 10")
      case True
      from "1.prems" True False have "decimal (m div 10) @ [digit_char (m mod 10)] = [digit_char n]"
        by (subst (asm) decimal.simps, subst (asm) (2) decimal.simps) simp
      then show ?thesis using decimal_nonempty[of "m div 10"] by simp
    next
      case nge: False
      from "1.prems" False nge
      have "decimal (m div 10) @ [digit_char (m mod 10)] = decimal (n div 10) @ [digit_char (n mod 10)]"
        by (subst (asm) decimal.simps, subst (asm) (2) decimal.simps) simp
      then have q: "decimal (m div 10) = decimal (n div 10)"
        and r: "digit_char (m mod 10) = digit_char (n mod 10)" by simp_all
      from "1.IH"[OF False q] have "m div 10 = n div 10" .
      moreover from r have "m mod 10 = n mod 10" by (intro digit_char_inj) simp_all
      ultimately show ?thesis by (metis div_mult_mod_eq)
    qed
  qed
qed

lemma decimal_no_slash: "CHR ''/'' \<notin> set (decimal n)"
proof (induction n rule: decimal.induct)
  case (1 n)
  show ?case
  proof (cases "n < 10")
    case True
    then show ?thesis by (subst decimal.simps) (simp add: digit_char_not_slash)
  next
    case False
    with "1.IH" show ?thesis
      by (subst decimal.simps) (simp add: digit_char_not_slash)
  qed
qed

lemma split_slash_nonempty: "split_slash s \<noteq> []"
  by (induction s) (auto split: list.splits)

lemma split_slash_plain: "CHR ''/'' \<notin> set t \<Longrightarrow> split_slash t = [t]"
  by (induction t) auto

lemma split_slash_append:
  "CHR ''/'' \<notin> set t \<Longrightarrow>
   split_slash (s @ t) = butlast (split_slash s) @ [last (split_slash s) @ t]"
proof (induction s)
  case Nil
  then show ?case by (simp add: split_slash_plain)
next
  case (Cons c s)
  then show ?case
    using split_slash_nonempty[of s] split_slash_nonempty[of "s @ t"]
    by (auto split: list.splits simp: butlast_append)
qed

lemma components_append:
  assumes "CHR ''/'' \<notin> set t" "t \<noteq> []"
  shows "components (s @ t) = filter (\<lambda>x. x \<noteq> []) (butlast (split_slash s)) @ [last (split_slash s) @ t]"
  using assms by (simp add: components_def split_slash_append)

lemma isabs_append: "t \<noteq> [] \<Longrightarrow> CHR ''/'' \<notin> set t \<Longrightarrow> isabs (s @ t) = isabs s"
  by (cases s; cases t) (auto simp: isabs_def)

lemma abspath_numbered_inj:
  assumes "abspath wd (numbered name j) = abspath wd (numbered name k)"
  shows "j = k"
proof -
  have ns: "CHR ''/'' \<notin> set (''_'' @ decimal i)" for i
    using decimal_no_slash[of i] by simp
  have ne: "''_'' @ decimal i \<noteq> []" for i by simp
  have b: "base_of wd (numbered name i) = base_of wd name" for i
    unfolding base_of_def numbered_def using isabs_append[OF ne ns] by simp
  have c: "components (numbered name i) =
      filter (\<lambda>x. x \<noteq> []) (butlast (split_slash name)) @ [last (split_slash name) @ ''_'' @ decimal i]" for i
    unfolding numbered_def using components_append[OF ns ne] by simp
  from assms have "decimal j = decimal k"
    unfolding abspath_def b c by simp
  then show ?thesis by (rule decimal_inj)
qed

lemma finite_present:
  assumes "finite (dom f)"
  shows "finite {k. exists_p f (abspath wd (numbered name k))}"
proof -
  have "inj (\<lambda>k. abspath wd (numbered name k))"
    by (rule injI) (rule abspath_numbered_inj)
  with assms have "finite ((\<lambda>k. abspath wd (numbered name k)) -` (insert [] (dom f)))"
    by (intro finite_vimageI) simp_all
  moreover have "{k. exists_p f (abspath wd (numbered name k))} =
      (\<lambda>k. abspath wd (numbered name k)) -` (insert [] (dom f))"
    by (auto simp: exists_p_def)
  ultimately show ?thesis by simp
qed

lemma next_free_stops:
  assumes "\<forall>j\<ge>N. \<not> present (numbered name j)"
  shows "\<exists>j\<ge>k. next_free present name k = Some (numbered name j) \<and> \<not> present (numbered name j)
           \<and> (\<forall>i. k \<le> i \<and> i < j \<longrightarrow> present (numbered name i))"
proof (induction "N - k" arbitrary: k)
  case 0
  then have "\<not> present (numbered name k)" using assms by simp
  then show ?case by (subst next_free.simps) auto
next
  case (Suc d)
  show ?case
  proof (cases "present (numbered name k)")
    case False
    then show ?thesis by (subst next_free.simps) auto
  next
    case True
    from Suc.hyps(2) have "d = N - Suc k" by simp
    from Suc.hyps(1)[OF this] obtain j where j: "j \<ge> Suc k"
      "next_free present name (Suc k) = Some (numbered name j)" "\<not> present (numbered name j)"
      "\<forall>i. Suc k \<le> i \<and> i < j \<longrightarrow> present (numbered name i)"
      by blast
    have "\<forall>i. k \<le> i \<and> i < j \<longrightarrow> present (numbered name i)"
    proof (intro allI impI)
      fix i assume "k \<le> i \<and> i < j"
      then show "present (numbered name i)"
        using True j(4) by (cases "i = k") auto
    qed
    with True j show ?thesis by (subst next_free.simps) (auto intro!: exI[of _ j])
  qed
qed

lemma next_free_finite:
  assumes "finite {k. present (numbered name k)}"
  shows "\<exists>j. next_free present name 0 = Some (numbered name j) \<and> \<not> present (numbered name j)
           \<and> (\<forall>i<j. present (numbered name i))"
proof -
  from assms obtain N where "\<forall>j\<in>{k. present (numbered name k)}. j < N"
    using finite_nat_set_iff_bounded by blast
  then have "\<forall>j\<ge>N. \<not> present (numbered name j)" by auto
  from next_free_stops[OF this, of 0] show ?thesis by auto
qed

lemma write_datasets_snoc:
  "write_datasets folder (ds @ [d]) f =
     (write_datasets folder ds f)(folder @ [fst d] \<mapsto> File (Histogram (snd d)))"
  by (simp add: write_datasets_def)

lemma write_datasets_folder: "write_datasets folder ds f folder = Some Dir"
  by (induction ds rule: rev_induct) (simp_all add: write_datasets_snoc, simp add: write_datasets_def)

lemma write_datasets_elsewhere:
  "p \<noteq> folder \<Longrightarrow> \<forall>d\<in>set ds. p \<noteq> folder @ [fst d] \<Longrightarrow> write_datasets folder ds f p = f p"
  by (induction ds rule: rev_induct) (simp_all add: write_datasets_snoc, simp add: write_datasets_def)

lemma write_datasets_file:
  "n \<in> fst ` set ds \<Longrightarrow>
   write_datasets folder ds f (folder @ [n]) = map_option (File \<circ> Histogram) (map_of (rev ds) n)"
proof (induction ds rule: rev_induct)
  case Nil
  then show ?case by simp
next
  case (snoc d ds)
  show ?case
  proof (cases "fst d = n")
    case True
    then show ?thesis by (cases d) (simp add: write_datasets_snoc)
  next
    case False
    with snoc.prems have "n \<in> fst ` set ds" by auto
    from snoc.IH[OF this] False show ?thesis
      by (cases d) (simp add: write_datasets_snoc)
  qed
qed

lemma write_datasets_distinct:
  assumes "distinct (map fst ds)" "d \<in> set ds"
  shows "write_datasets folder ds f (folder @ [fst d]) = Some (File (Histogram (snd d)))"
proof -
  from assms(1) have "distinct (map fst (rev ds))" by (simp add: rev_map[symmetric])
  moreover from assms(2) have "(fst d, snd d) \<in> set (rev ds)" by simp
  ultimately have "map_of (rev ds) (fst d) = Some (snd d)" by (rule map_of_is_SomeI)
  moreover from assms(2) have "fst d \<in> fst ` set ds" by simp
  ultimately show ?thesis by (simp add: write_datasets_file)
qed

lemma write_datasets_keeps:
  assumes "tree_like f" "\<not> exists_p f folder" "f p \<noteq> None"
  shows "write_datasets folder ds f p = f p"
proof (rule write_datasets_elsewhere)
  from assms(2,3) show "p \<noteq> folder" by (auto simp: exists_p_def)
  show "\<forall>d\<in>set ds. p \<noteq> folder @ [fst d]"
  proof
    fix d assume "d \<in> set ds"
    show "p \<noteq> folder @ [fst d]"
    proof
      assume "p = folder @ [fst d]"
      with assms(1,3) have "isdir f folder" by (auto simp: tree_like_def)
      with assms(2) show False by (auto simp: isdir_def exists_p_def)
    qed
  qed
qed

lemma data_folder_fresh:
  assumes "finite (dom (fs w))" "exists_p (fs w) (abspath (cwd w) foldername)"
  shows "\<exists>k. data_folder_name foldername True w = Some (numbered foldername k)
            \<and> \<not> exists_p (fs w) (abspath (cwd w) (numbered foldername k))
            \<and> (\<forall>j<k. exists_p (fs w) (abspath (cwd w) (numbered foldername j)))"
proof -
  from assms(1) have "finite {k. exists_p (fs w) (abspath (cwd w) (numbered foldername k))}"
    by (rule finite_present)
  from next_free_finite[of "\<lambda>n. exists_p (fs w) (abspath (cwd w) n)", OF this]
  show ?thesis using assms(2) by (simp add: data_folder_name_def)
qed








lemma sum_below_7: "(\<Sum>m<7. f m) = f 0 + f 1 + f 2 + f 3 + f 4 + f 5 + f (6::nat)" for f :: "nat \<Rightarrow> real"
  by (simp add: eval_nat_numeral)

lemma sin_coeff_values:
  "sin_coeff (Suc 0) = 1" "sin_coeff 2 = 0" "sin_coeff 3 = - 1 / 6" "sin_coeff 4 = 0"
  "sin_coeff 5 = 1 / 120" "sin_coeff 6 = 0"
  by (simp_all add: sin_coeff_def fact_numeral)

lemma fact_7: "fact 7 = (5040::real)"
  by (simp add: fact_numeral)

lemma sin_taylor7: "(\<Sum>m<7. sin_coeff m * x ^ m) = x - x ^ 3 / 6 + x ^ 5 / 120" for x :: real
  unfolding sum_below_7 by (simp add: sin_coeff_values)

lemma sin_upper: "sin x \<le> x - x ^ 3 / 6 + x ^ 5 / 120 + \<bar>x\<bar> ^ 7 / 5040" for x :: real
proof -
  have "\<bar>sin x - (\<Sum>m<7. sin_coeff m * x ^ m)\<bar> \<le> inverse (fact 7) * \<bar>x\<bar> ^ 7"
    by (rule Maclaurin_sin_bound)
  moreover have "inverse (fact 7) * \<bar>x\<bar> ^ 7 = \<bar>x\<bar> ^ 7 / 5040"
    unfolding fact_7 by simp
  ultimately show ?thesis unfolding sin_taylor7 by linarith
qed

lemma sin_lower: "x - x ^ 3 / 6 + x ^ 5 / 120 - \<bar>x\<bar> ^ 7 / 5040 \<le> sin x" for x :: real
proof -
  have "\<bar>sin x - (\<Sum>m<7. sin_coeff m * x ^ m)\<bar> \<le> inverse (fact 7) * \<bar>x\<bar> ^ 7"
    by (rule Maclaurin_sin_bound)
  moreover have "inverse (fact 7) * \<bar>x\<bar> ^ 7 = \<bar>x\<bar> ^ 7 / 5040"
    unfolding fact_7 by simp
  ultimately show ?thesis unfolding sin_taylor7 by linarith
qed

lemma pi_upper: "pi < 3.1416"
proof (rule ccontr)
  assume "\<not> pi < 3.1416"
  then have le: "3.1416 \<le> pi" by simp
  have "sin (3.1416 / 6 :: real) \<le> sin (pi / 6)"
    by (rule sin_monotone_2pi_le) (use le pi_ge_two in auto)
  then have "sin (3.1416 / 6 :: real) \<le> 1 / 2" by (simp add: sin_30)
  moreover have "(1::real) / 2 < (3.1416 / 6) - (3.1416 / 6) ^ 3 / 6 + (3.1416 / 6) ^ 5 / 120 - \<bar>3.1416 / 6\<bar> ^ 7 / 5040"
    by (simp add: power_divide)
  ultimately show False using sin_lower[of "3.1416 / 6"] by linarith
qed

lemma pi_lower: "3.1415 < pi"
proof (rule ccontr)
  assume "\<not> 3.1415 < pi"
  then have le: "pi \<le> 3.1415" by simp
  have "sin (pi / 6) \<le> sin (3.1415 / 6 :: real)"
    by (rule sin_monotone_2pi_le) (use le pi_ge_two in auto)
  then have "1 / 2 \<le> sin (3.1415 / 6 :: real)" by (simp add: sin_30)
  moreover have "(3.1415 / 6) - (3.1415 / 6) ^ 3 / 6 + (3.1415 / 6) ^ 5 / 120 + \<bar>3.1415 / 6\<bar> ^ 7 / 5040 < (1::real) / 2"
    by (simp add: power_divide)
  ultimately show False using sin_upper[of "3.1415 / 6"] by linarith
qed

lemma within: "a < t \<Longrightarrow> t < b \<Longrightarrow> b - c \<le> e \<Longrightarrow> c - a \<le> e \<Longrightarrow> \<bar>t - c\<bar> < e" for t :: real
  by linarith

lemma beyond: "c + e \<le> a \<Longrightarrow> a < t \<Longrightarrow> \<not> \<bar>t - c\<bar> \<le> e" for t :: real
  by linarith

lemma wavevector_literal: "\<bar>wavevector_init 1.2 - 5.236\<bar> < 0.0005"
  using pi_lower pi_upper by (simp add: wavevector_init_def PI_def abs_less_iff)

lemma bragg_argument: "0.5 * 3.355 / wavevector_init 1.2 = 1.0065 / pi"
  by (simp add: wavevector_init_def PI_def)

lemma arg_lower: "0.32037 < 1.0065 / pi"
proof -
  have "(0.32037::real) < 1.0065 / 3.1416" by simp
  also have "\<dots> < 1.0065 / pi"
    using pi_upper pi_gt_zero by (intro divide_strict_left_mono) auto
  finally show ?thesis .
qed

lemma arg_upper: "1.0065 / pi < 0.32039"
proof -
  have "1.0065 / pi < 1.0065 / (3.1415::real)"
    using pi_lower by (intro divide_strict_left_mono) auto
  also have "\<dots> < 0.32039" by simp
  finally show ?thesis .
qed

lemma sin_low_angle: "sin (18.65 * pi / 180) < 0.32037"
proof -
  have "sin (18.65 * pi / 180) \<le> sin (18.65 * 3.1416 / 180 :: real)"
    by (rule sin_monotone_2pi_le) (use pi_upper pi_ge_two in auto)
  also have "\<dots> \<le> (18.65 * 3.1416 / 180) - (18.65 * 3.1416 / 180) ^ 3 / 6
      + (18.65 * 3.1416 / 180) ^ 5 / 120 + \<bar>18.65 * 3.1416 / 180\<bar> ^ 7 / 5040"
    by (rule sin_upper)
  also have "\<dots> < 0.32037" by (simp add: power_divide)
  finally show ?thesis .
qed

lemma sin_high_angle: "0.32039 < sin (18.75 * pi / 180)"
proof -
  have "(0.32039::real) < (18.75 * 3.1415 / 180) - (18.75 * 3.1415 / 180) ^ 3 / 6
      + (18.75 * 3.1415 / 180) ^ 5 / 120 - \<bar>18.75 * 3.1415 / 180\<bar> ^ 7 / 5040"
    by (simp add: power_divide)
  also have "\<dots> \<le> sin (18.75 * 3.1415 / 180 :: real)" by (rule sin_lower)
  also have "\<dots> \<le> sin (18.75 * pi / 180)"
    by (rule sin_monotone_2pi_le) (use pi_lower pi_ge_two in auto)
  finally show ?thesis .
qed

lemma arcsin_lower: "18.65 * pi / 180 < arcsin (1.0065 / pi)"
proof -
  have "sin (18.65 * pi / 180) < 1.0065 / pi"
    by (rule less_trans[OF sin_low_angle arg_lower])
  moreover have "1.0065 / pi \<le> 1"
    by (rule order_trans[OF less_imp_le[OF arg_upper]]) simp
  moreover have "- 1 \<le> sin (18.65 * pi / 180)" by simp
  ultimately have "arcsin (sin (18.65 * pi / 180)) < arcsin (1.0065 / pi)"
    by (intro arcsin_less_arcsin)
  moreover have "arcsin (sin (18.65 * pi / 180)) = 18.65 * pi / 180"
    by (rule arcsin_sin) (use pi_gt_zero in auto)
  ultimately show ?thesis by simp
qed

lemma arcsin_upper: "arcsin (1.0065 / pi) < 18.75 * pi / 180"
proof -
  have "1.0065 / pi < sin (18.75 * pi / 180)"
    by (rule less_trans[OF arg_upper sin_high_angle])
  moreover have "- 1 \<le> 1.0065 / pi"
    by (rule order_trans[OF _ less_imp_le[OF arg_lower]]) simp
  moreover have "sin (18.75 * pi / 180) \<le> 1" by simp
  ultimately have "arcsin (1.0065 / pi) < arcsin (sin (18.75 * pi / 180))"
    by (intro arcsin_less_arcsin)
  moreover have "arcsin (sin (18.75 * pi / 180)) = 18.75 * pi / 180"
    by (rule arcsin_sin) (use pi_gt_zero in auto)
  ultimately show ?thesis by simp
qed

lemma mono_theta_literal: "18.65 < mono_theta_init 3.355 1.2 \<and> mono_theta_init 3.355 1.2 < 18.75"
proof -
  have eq: "mono_theta_init 3.355 1.2 = 180 / pi * arcsin (1.0065 / pi)"
    unfolding mono_theta_init_def RAD2DEG_def bragg_argument by (simp add: PI_def)
  have "18.65 < 180 / pi * arcsin (1.0065 / pi)"
    using arcsin_lower pi_gt_zero by (simp add: field_simps)
  moreover have "180 / pi * arcsin (1.0065 / pi) < 18.75"
    using arcsin_upper pi_gt_zero by (simp add: field_simps)
  ultimately show ?thesis unfolding eq by simp
qed

























lemmas run_defs = stage_setup_def stage_dft_def stage_mcstas_def stage_mcstas_setup_def workflow_def
  run_full_instrument_def data_folder_name_def next_free.simps numbered_def digit_char_def
  write_datasets_def

lemmas eval_defs = run_defs cell_defs name_defs ex_defs py_defs os_defs ase_defs makedirs.simps Let_def

lemma os_makedirs_present:
  assumes "name \<noteq> []" "isdir (fs w) (abspath (cwd w) name)"
    "butlast (components name) = [] \<or> exists_p (fs w) (base_of (cwd w) name @ butlast (components name))"
  shows "os_makedirs name True w = (Inr (), w)"
  using assms makedirs_present[of "fs w" "base_of (cwd w) name" "components name"]
  by (simp add: os_makedirs_def abspath_def)

lemma cell_path_result:
  assumes "cell_path w = (Inr (), w1)"
  shows "\<exists>p h. environ w ''PATH'' = Some p \<and> environ w ''HOME'' = Some h
           \<and> w1 = w\<lparr>environ := (environ w)(''PATH'' \<mapsto>
                     p @ '':'' @ h @ ''/PANOSC/bin'' @ '':/usr/lib64/mpich/bin:'')\<rparr>"
  using assms
  by (auto simp: cell_path_def py_bind_def environ_get_def environ_set_def Let_def
      split: option.splits)

lemma cell_path_runs:
  assumes "environ w ''PATH'' = Some p" "environ w ''HOME'' = Some h"
  shows "cell_path w = (Inr (), w\<lparr>environ := (environ w)(''PATH'' \<mapsto>
                     p @ '':'' @ h @ ''/PANOSC/bin'' @ '':/usr/lib64/mpich/bin:'')\<rparr>)"
  using assms
  by (simp add: cell_path_def py_bind_def environ_get_def environ_set_def Let_def)

lemma os_makedirs_environ:
  assumes "os_makedirs name ok w = (r, w1)"
  shows "os_makedirs name ok (w\<lparr>environ := e\<rparr>) = (r, w1\<lparr>environ := e\<rparr>)"
  using assms by (auto simp: os_makedirs_def split: if_splits prod.splits)

lemma os_chdir_environ:
  assumes "os_chdir name w = (r, w1)"
  shows "os_chdir name (w\<lparr>environ := e\<rparr>) = (r, w1\<lparr>environ := e\<rparr>)"
  using assms by (auto simp: os_chdir_def Let_def split: if_splits)

lemma cell_tmpdir_environ:
  assumes "cell_tmpdir w = (r, w3)"
  shows "cell_tmpdir (w\<lparr>environ := e\<rparr>) = (r, w3\<lparr>environ := e\<rparr>)"
proof -
  obtain r1 w1 where s1: "os_makedirs tmpdir True w = (r1, w1)"
    by (cases "os_makedirs tmpdir True w")
  obtain r2 w2 where s2: "os_chdir tmpdir w1 = (r2, w2)"
    by (cases "os_chdir tmpdir w1")
  obtain r3 w3' where s3: "os_makedirs mcstas_outdir True w2 = (r3, w3')"
    by (cases "os_makedirs mcstas_outdir True w2")
  note e1 = os_makedirs_environ[OF s1, of e]
  note e2 = os_chdir_environ[OF s2, of e]
  note e3 = os_makedirs_environ[OF s3, of e]
  from assms s1 s2 s3 e1 e2 e3 show ?thesis
    by (auto simp: cell_tmpdir_def py_bind_def split: sum.splits)
qed

lemma stage_setup_twice:
  assumes "stage_setup w = (Inr (), w4)"
  shows "\<exists>w5 p h. stage_setup w4 = (Inr (), w5)
           \<and> environ w4 ''PATH'' = Some p \<and> environ w4 ''HOME'' = Some h
           \<and> w5 = w4\<lparr>environ := (environ w4)(''PATH'' \<mapsto>
                      p @ '':'' @ h @ ''/PANOSC/bin'' @ '':/usr/lib64/mpich/bin:'')\<rparr>
           \<and> w5 \<noteq> w4"
proof -
  from assms obtain wa where s1: "cell_path w = (Inr (), wa)" and s2: "cell_tmpdir wa = (Inr (), w4)"
    by (auto simp: stage_setup_def py_bind_def split: prod.splits sum.splits)
  from cell_path_result[OF s1] obtain p0 h where
    wa: "wa = w\<lparr>environ := (environ w)(''PATH'' \<mapsto>
                     p0 @ '':'' @ h @ ''/PANOSC/bin'' @ '':/usr/lib64/mpich/bin:'')\<rparr>"
    and h0: "environ w ''HOME'' = Some h"
    by blast
  let ?p = "p0 @ '':'' @ h @ ''/PANOSC/bin'' @ '':/usr/lib64/mpich/bin:''"
  from cell_tmpdir_frame[OF s2] have env: "environ w4 = environ wa" by simp
  have p4: "environ w4 ''PATH'' = Some ?p" and h4: "environ w4 ''HOME'' = Some h"
    using env wa h0 by simp_all
  let ?e = "(environ w4)(''PATH'' \<mapsto> ?p @ '':'' @ h @ ''/PANOSC/bin'' @ '':/usr/lib64/mpich/bin:'')"
  let ?w5 = "w4\<lparr>environ := ?e\<rparr>"
  have c1: "cell_path w4 = (Inr (), ?w5)" using cell_path_runs[OF p4 h4] .
  have c2: "cell_tmpdir ?w5 = (Inr (), ?w5)"
    using cell_tmpdir_environ[OF cell_tmpdir_idem[OF s2], of ?e] .
  have run: "stage_setup w4 = (Inr (), ?w5)"
    using c1 c2 by (simp add: stage_setup_def py_bind_def)
  have "environ ?w5 ''PATH'' \<noteq> environ w4 ''PATH''" using p4 by simp
  then have ne: "?w5 \<noteq> w4" by metis
  from run p4 h4 ne show ?thesis by blast
qed

lemmas instr_defs = powder_diffractometer_def McStas_instr_def add_parameter_def add_declare_var_def
  append_initialize_def add_component_def on_component_def set_attr_def set_ROTATED_def set_SPLIT_def

lemma instr_parameters:
  "parameters powder_diffractometer = [(''wavelength'', 1.2), (''mono_Q'', 3.355)]
   \<and> initialize powder_diffractometer =
       [''wavevector = 2*PI/wavelength;'', ''mono_theta = RAD2DEG*asin(0.5*mono_Q/wavevector);'']"
  by (simp add: instr_defs)

section \<open>The claims\<close>

subsection \<open>C1: the monochromator angle from the Bragg relation\<close>

text \<open>
  Claim C1, as amended. The two initialisation statements of the instrument compute
  \<open>k = 2\<pi>/\<lambda>\<close> and the angle \<open>arcsin (Q / 2k)\<close> in degrees, for every \<open>Q\<close> and \<open>\<lambda>\<close>. The
  instrument declares \<open>\<lambda> = 1.2\<close> and \<open>Q = 3.355\<close>, and the run overrides neither. For
  these values the wavevector is 5.236 to three decimals and the angle is 18.7 degrees to
  one decimal (it lies between 18.65 and 18.75), not 18.4.
\<close>

theorem bragg_angle_closed_form:
  "mono_theta_init Q l = 180 / pi * arcsin (Q / (2 * wavevector_init l))
   \<and> wavevector_init l = 2 * pi / l
   \<and> \<bar>wavevector_init 1.2 - 5.236\<bar> < 0.0005
   \<and> \<bar>mono_theta_init 3.355 1.2 - 18.7\<bar> < 0.05
   \<and> parameters powder_diffractometer = [(''wavelength'', 1.2), (''mono_Q'', 3.355)]
   \<and> initialize powder_diffractometer =
       [''wavevector = 2*PI/wavelength;'', ''mono_theta = RAD2DEG*asin(0.5*mono_Q/wavevector);'']"
proof -
  have a: "mono_theta_init Q l = 180 / pi * arcsin (Q / (2 * wavevector_init l))"
    by (simp add: mono_theta_init_def RAD2DEG_def PI_def)
  have b: "wavevector_init l = 2 * pi / l"
    by (simp add: wavevector_init_def PI_def)
  have c: "\<bar>mono_theta_init 3.355 1.2 - 18.7\<bar> < 0.05"
    by (rule within[of "18.65" _ "18.75"]) (use mono_theta_literal in simp_all)
  from a b c wavevector_literal instr_parameters show ?thesis by blast
qed

text \<open>
  Claim C1 as stated gives the angle as about 18.4 degrees. The computed angle is more
  than a quarter of a degree away from 18.4.
\<close>

theorem bragg_angle_not_18_4: "\<not> \<bar>mono_theta_init 3.355 1.2 - 18.4\<bar> \<le> 0.25"
  by (rule beyond[of _ _ "18.65"]) (use mono_theta_literal in simp_all)

subsection \<open>C2: the difference of positions after the relaxation\<close>



subsection \<open>C3: a solver run that does not converge\<close>



subsection \<open>C4: the reflection file before the simulation\<close>



subsection \<open>C6: an unreachable structure database\<close>

text \<open>
  Claim C6, as amended. The structure is fetched by exactly one command, with no retry,
  and the cell never raises: whatever the exit status of the command, the rest of the
  notebook runs from the state the command left. The run stops with a file-not-found
  error at the cell that reads the structure exactly when the file is not in the
  working directory by then.
\<close>

theorem fetch_failure_is_ignored:
  "(\<exists>status w1. cell_fetch x w = (Inr status, w1)
      \<and> calls w1 = calls w @ [Shell ''wget -c https://www.crystallography.net/cod/1527603.cif'' (cwd w)]
      \<and> (\<forall>k. py_bind (cell_fetch x) k w = k status w1))
   \<and> ((fst (cell_read w') = Inl FileNotFoundError) = (fs w' (abspath (cwd w') CIF_file) = None))"
proof -
  obtain st f' where sh: "shell x (''wget -c https://www.crystallography.net/cod/'' @ CIF_file)
      (environ w) (cwd w) (fs w) = (st, f')"
    by (cases "shell x (''wget -c https://www.crystallography.net/cod/'' @ CIF_file)
      (environ w) (cwd w) (fs w)")
  then have "cell_fetch x w = (Inr st, w\<lparr>fs := f', calls := calls w @
       [Shell ''wget -c https://www.crystallography.net/cod/1527603.cif'' (cwd w)]\<rparr>)"
    by (simp add: cell_fetch_def os_system_def CIF_file_def)
  then have a: "\<exists>status w1. cell_fetch x w = (Inr status, w1)
      \<and> calls w1 = calls w @ [Shell ''wget -c https://www.crystallography.net/cod/1527603.cif'' (cwd w)]
      \<and> (\<forall>k. py_bind (cell_fetch x) k w = k status w1)"
    by (simp add: py_bind_def)
  have b: "(fst (cell_read w') = Inl FileNotFoundError) = (fs w' (abspath (cwd w') CIF_file) = None)"
    by (auto simp: cell_read_def io_read_def new_atoms_def split: option.splits node.splits content.splits)
  from a b show ?thesis by blast
qed

text \<open>
  Claim C6 as stated says the run aborts at the download. Without network the download
  returns status 4, both pseudopotential downloads are still attempted, and the run stops
  only at the cell that reads the structure.
\<close>

theorem offline_run_continues:
  "fst (cell_fetch offline (snd (cell_tmpdir (snd (cell_path start))))) = Inr 4
   \<and> fst (stage_dft offline start) = Inl FileNotFoundError
   \<and> calls (snd (stage_dft offline start)) =
         [Shell ''wget -c https://www.crystallography.net/cod/1527603.cif'' [''tmp'', ''jupiter''],
          Shell ''wget -c https://www.quantum-espresso.org/upf_files/N.pbe-n-kjpaw_psl.1.0.0.UPF''
            [''tmp'', ''jupiter'', ''pseudo''],
          Shell ''wget -c https://raw.githubusercontent.com/PaNOSC-ViNYL/workshop2020/team2/demo/team2/N.pbe-n-radius_5.UPF''
            [''tmp'', ''jupiter'', ''pseudo'']]"
  by (simp add: eval_defs)

subsection \<open>C8: the output folder of a repeated run\<close>

text \<open>
  Claim C8. When the numbering policy is on and the requested folder is present, on a
  finite tree-like file system the run ends and returns the datasets of the engine. Its
  folder is the first numbered one that was not present before (every lower number is
  present) and is not the requested one. After the run that folder is a directory, and
  for every dataset name of the engine the file of that name in it holds the histogram of
  the last dataset of that name; so when the names are distinct every dataset is stored
  under its name. Every entry that was present before the run, the requested folder and
  what it holds among them, is unchanged.
\<close>

theorem run_writes_fresh_folder:
  assumes "finite (dom (fs w))" and "tree_like (fs w)"
    and "exists_p (fs w) (abspath (cwd w) foldername)"
    and "mcrun x instr ncount mpi (cwd w) (fs w) = Inr ds"
  shows "\<exists>k w'. run_full_instrument x instr ncount mpi foldername True w = Some (Inr ds, w')
           \<and> \<not> exists_p (fs w) (abspath (cwd w) (numbered foldername k))
           \<and> (\<forall>j<k. exists_p (fs w) (abspath (cwd w) (numbered foldername j)))
           \<and> abspath (cwd w) (numbered foldername k) \<noteq> abspath (cwd w) foldername
           \<and> fs w' (abspath (cwd w) (numbered foldername k)) = Some Dir
           \<and> (\<forall>n\<in>fst ` set ds.
                 fs w' (abspath (cwd w) (numbered foldername k) @ [n])
                   = map_option (File \<circ> Histogram) (map_of (rev ds) n))
           \<and> (distinct (map fst ds) \<longrightarrow>
                 (\<forall>d\<in>set ds. fs w' (abspath (cwd w) (numbered foldername k) @ [fst d])
                                 = Some (File (Histogram (snd d)))))
           \<and> (\<forall>p. fs w p \<noteq> None \<longrightarrow> fs w' p = fs w p)"
proof -
  from data_folder_fresh[OF assms(1,3)] obtain k
    where k: "data_folder_name foldername True w = Some (numbered foldername k)"
      and fresh: "\<not> exists_p (fs w) (abspath (cwd w) (numbered foldername k))"
      and first: "\<forall>j<k. exists_p (fs w) (abspath (cwd w) (numbered foldername j))" by blast
  let ?folder = "abspath (cwd w) (numbered foldername k)"
  let ?w' = "w\<lparr>calls := calls w @ [Engine ?folder], fs := write_datasets ?folder ds (fs w)\<rparr>"
  have run: "run_full_instrument x instr ncount mpi foldername True w = Some (Inr ds, ?w')"
    using k assms(4) by (simp add: run_full_instrument_def Let_def)
  have ne: "?folder \<noteq> abspath (cwd w) foldername" using fresh assms(3) by auto
  have keeps: "\<forall>p. fs w p \<noteq> None \<longrightarrow> fs ?w' p = fs w p"
    using write_datasets_keeps[OF assms(2) fresh] by simp
  have files: "\<forall>n\<in>fst ` set ds.
      fs ?w' (?folder @ [n]) = map_option (File \<circ> Histogram) (map_of (rev ds) n)"
    using write_datasets_file by simp
  have each: "distinct (map fst ds) \<longrightarrow>
      (\<forall>d\<in>set ds. fs ?w' (?folder @ [fst d]) = Some (File (Histogram (snd d))))"
    using write_datasets_distinct by simp
  have dir: "fs ?w' ?folder = Some Dir" by (simp add: write_datasets_folder)
  from run fresh first ne dir files each keeps show ?thesis by blast
qed

text \<open>
  An instance of C8: the requested folder, with a histogram from an earlier run, and the
  folder numbered 0 are present. The run succeeds, the folder numbered 1 is made and holds
  the new histogram, and the folder numbered 0 and the histogram of the earlier run are
  still there.
\<close>

theorem run_writes_fresh_folder_example:
  "finite (dom (fs rerun)) \<and> tree_like (fs rerun)
   \<and> exists_p (fs rerun) (abspath (cwd rerun) mcstas_outdir)
   \<and> (\<exists>w'. run_full_instrument lab powder_diffractometer 5000000 4 mcstas_outdir True rerun
               = Some (Inr [(''banana.dat'', [1, 2])], w')
          \<and> fs w' [''clone'', ''mcstas_output_1''] = Some Dir
          \<and> fs w' [''clone'', ''mcstas_output_1'', ''banana.dat''] = Some (File (Histogram [1, 2]))
          \<and> fs w' [''clone'', ''mcstas_output_0''] = Some Dir
          \<and> fs w' [''clone'', ''mcstas_output'', ''banana.dat''] = Some (File (Histogram [7])))"
proof -
  have a: "finite (dom (fs rerun))" by (simp add: rerun_def)
  have b: "tree_like (fs rerun)"
    by (auto simp: tree_like_def isdir_def rerun_def split: if_splits)
  have c: "exists_p (fs rerun) (abspath (cwd rerun) mcstas_outdir)"
    by (simp add: rerun_def eval_defs)
  have d: "mcrun lab powder_diffractometer 5000000 4 (cwd rerun) (fs rerun)
      = Inr [(''banana.dat'', [1, 2])]"
    by (simp add: lab_def)
  have old: "fs rerun [''clone'', ''mcstas_output'', ''banana.dat''] = Some (File (Histogram [7]))"
    by (simp add: rerun_def)
  have old0: "fs rerun [''clone'', ''mcstas_output_0''] = Some Dir"
    by (simp add: rerun_def)
  have n0: "exists_p (fs rerun) (abspath (cwd rerun) (numbered mcstas_outdir 0))"
    by (simp add: rerun_def eval_defs)
  have n1: "\<not> exists_p (fs rerun) (abspath (cwd rerun) (numbered mcstas_outdir (Suc 0)))"
    by (simp add: rerun_def eval_defs)
  have p1: "abspath (cwd rerun) (numbered mcstas_outdir (Suc 0)) = [''clone'', ''mcstas_output_1'']"
    by (simp add: rerun_def eval_defs)
  from run_writes_fresh_folder[OF a b c d] obtain k w' where
      run: "run_full_instrument lab powder_diffractometer 5000000 4 mcstas_outdir True rerun
         = Some (Inr [(''banana.dat'', [1, 2])], w')"
      and fresh: "\<not> exists_p (fs rerun) (abspath (cwd rerun) (numbered mcstas_outdir k))"
      and first: "\<forall>j<k. exists_p (fs rerun) (abspath (cwd rerun) (numbered mcstas_outdir j))"
      and dir: "fs w' (abspath (cwd rerun) (numbered mcstas_outdir k)) = Some Dir"
      and each: "distinct (map fst [(''banana.dat'', [1, 2::real])]) \<longrightarrow>
                 (\<forall>d\<in>set [(''banana.dat'', [1, 2])].
                     fs w' (abspath (cwd rerun) (numbered mcstas_outdir k) @ [fst d])
                                 = Some (File (Histogram (snd d))))"
      and keeps: "\<forall>p. fs rerun p \<noteq> None \<longrightarrow> fs w' p = fs rerun p"
    by blast
  have "\<not> Suc 0 < k" using first n1 by blast
  moreover have "k \<noteq> 0"
  proof
    assume "k = 0"
    with fresh n0 show False by simp
  qed
  ultimately have k: "k = Suc 0" by simp
  from dir have r1: "fs w' [''clone'', ''mcstas_output_1''] = Some Dir"
    unfolding k p1 .
  from each have r2: "fs w' [''clone'', ''mcstas_output_1'', ''banana.dat'']
      = Some (File (Histogram [1, 2]))"
    unfolding k p1 by simp
  from keeps old0 have r3: "fs w' [''clone'', ''mcstas_output_0''] = Some Dir" by simp
  from keeps old have r4: "fs w' [''clone'', ''mcstas_output'', ''banana.dat'']
      = Some (File (Histogram [7]))" by simp
  from run r1 r2 r3 r4 have "\<exists>w'. run_full_instrument lab powder_diffractometer 5000000 4 mcstas_outdir True rerun
               = Some (Inr [(''banana.dat'', [1, 2])], w')
          \<and> fs w' [''clone'', ''mcstas_output_1''] = Some Dir
          \<and> fs w' [''clone'', ''mcstas_output_1'', ''banana.dat''] = Some (File (Histogram [1, 2]))
          \<and> fs w' [''clone'', ''mcstas_output_0''] = Some Dir
          \<and> fs w' [''clone'', ''mcstas_output'', ''banana.dat''] = Some (File (Histogram [7]))"
    by blast
  with a b c show ?thesis by blast
qed

subsection \<open>C9: preparing the workspace twice\<close>

text \<open>
  Claim C9, as amended. The scratch directory, the pseudopotential directory and the
  simulation output directory are all made by \<^verbatim>\<open>os.makedirs(name, exist_ok=True)\<close>. For
  every name and state: a call that succeeded succeeds again and then changes nothing; no
  call changes an entry that is present; a call on a directory that is present, below a
  parent that is present, succeeds and changes nothing. The cell that prepares the scratch
  directory (lines 81-85), once it has succeeded, succeeds again without changing the
  state, and it leaves every entry that was present in place. The preparation as a whole
  (lines 50-85) is not idempotent: once it has succeeded it succeeds again and leaves the
  file system, the working directory and everything else as they were, except the search
  path, to which the cell of lines 50-54 appends its two entries once more; the state
  after two runs is not the state after one.
\<close>

theorem preparation_twice:
  "(os_makedirs name True w = (Inr (), w1) \<longrightarrow> os_makedirs name True w1 = (Inr (), w1))
   \<and> (os_makedirs name True w = (r, w1) \<longrightarrow> (\<forall>q. fs w q \<noteq> None \<longrightarrow> fs w1 q = fs w q))
   \<and> (name \<noteq> [] \<and> isdir (fs w) (abspath (cwd w) name)
        \<and> (butlast (components name) = []
             \<or> exists_p (fs w) (base_of (cwd w) name @ butlast (components name)))
       \<longrightarrow> os_makedirs name True w = (Inr (), w))
   \<and> (cell_tmpdir w = (Inr (), w3) \<longrightarrow>
         cell_tmpdir w3 = (Inr (), w3) \<and> (\<forall>q. fs w q \<noteq> None \<longrightarrow> fs w3 q = fs w q))
   \<and> (stage_setup w = (Inr (), w4) \<longrightarrow>
         (\<exists>w5 p h. stage_setup w4 = (Inr (), w5)
            \<and> environ w4 ''PATH'' = Some p \<and> environ w4 ''HOME'' = Some h
            \<and> w5 = w4\<lparr>environ := (environ w4)(''PATH'' \<mapsto>
                       p @ '':'' @ h @ ''/PANOSC/bin'' @ '':/usr/lib64/mpich/bin:'')\<rparr>
            \<and> w5 \<noteq> w4))"
proof (intro conjI impI)
  assume a: "os_makedirs name True w = (Inr (), w1)"
  from os_makedirs_frame[OF a] have "base_of (cwd w1) name = base_of (cwd w) name" by simp
  then show "os_makedirs name True w1 = (Inr (), w1)"
    by (rule os_makedirs_again[OF a]) simp
next
  assume "os_makedirs name True w = (r, w1)"
  from os_makedirs_frame[OF this] show "\<forall>q. fs w q \<noteq> None \<longrightarrow> fs w1 q = fs w q" by simp
next
  assume "name \<noteq> [] \<and> isdir (fs w) (abspath (cwd w) name)
        \<and> (butlast (components name) = []
             \<or> exists_p (fs w) (base_of (cwd w) name @ butlast (components name)))"
  then show "os_makedirs name True w = (Inr (), w)"
    by (intro os_makedirs_present) simp_all
next
  assume "cell_tmpdir w = (Inr (), w3)"
  then show "cell_tmpdir w3 = (Inr (), w3)" by (rule cell_tmpdir_idem)
next
  assume "cell_tmpdir w = (Inr (), w3)"
  from cell_tmpdir_frame[OF this] show "\<forall>q. fs w q \<noteq> None \<longrightarrow> fs w3 q = fs w q" by simp
next
  assume "stage_setup w = (Inr (), w4)"
  then show "\<exists>w5 p h. stage_setup w4 = (Inr (), w5)
            \<and> environ w4 ''PATH'' = Some p \<and> environ w4 ''HOME'' = Some h
            \<and> w5 = w4\<lparr>environ := (environ w4)(''PATH'' \<mapsto>
                       p @ '':'' @ h @ ''/PANOSC/bin'' @ '':/usr/lib64/mpich/bin:'')\<rparr>
            \<and> w5 \<noteq> w4"
    by (rule stage_setup_twice)
qed

text \<open>
  An instance of C9: from an empty file system the cell that prepares the scratch
  directory succeeds, a second run of it changes nothing, and making the pseudopotential
  and scratch directories again succeeds and leaves the output directory in place. The
  preparation as a whole succeeds twice, with the same file system and working directory,
  and a different state.
\<close>

theorem preparation_twice_example:
  "fst (cell_tmpdir start) = Inr ()
   \<and> cell_tmpdir (snd (cell_tmpdir start)) = (Inr (), snd (cell_tmpdir start))
   \<and> fst (os_makedirs pseudo_dir True (snd (cell_tmpdir start))) = Inr ()
   \<and> os_makedirs pseudo_dir True (snd (os_makedirs pseudo_dir True (snd (cell_tmpdir start))))
        = (Inr (), snd (os_makedirs pseudo_dir True (snd (cell_tmpdir start))))
   \<and> fs (snd (cell_tmpdir start)) [''tmp'', ''jupiter'', ''mcstas_output''] = Some Dir
   \<and> fs (snd (os_makedirs pseudo_dir True (snd (cell_tmpdir start)))) [''tmp'', ''jupiter'', ''mcstas_output'']
        = Some Dir
   \<and> isdir (fs (snd (cell_tmpdir start))) (abspath (cwd (snd (cell_tmpdir start))) tmpdir)
   \<and> os_makedirs tmpdir True (snd (cell_tmpdir start)) = (Inr (), snd (cell_tmpdir start))
   \<and> fst (stage_setup start) = Inr ()
   \<and> fst (stage_setup (snd (stage_setup start))) = Inr ()
   \<and> fs (snd (stage_setup (snd (stage_setup start)))) = fs (snd (stage_setup start))
   \<and> cwd (snd (stage_setup (snd (stage_setup start)))) = cwd (snd (stage_setup start))
   \<and> snd (stage_setup (snd (stage_setup start))) \<noteq> snd (stage_setup start)"
proof -
  let ?s = "snd (stage_setup start)"
  have g1: "fst (stage_setup start) = Inr ()" by (simp add: eval_defs)
  then have k1: "stage_setup start = (Inr (), ?s)" by (simp add: prod_eq_iff)
  note preparation_twice[where w = start and ?w4.0 = ?s, THEN conjunct2, THEN conjunct2, THEN conjunct2,
      THEN conjunct2, THEN mp, OF k1]
  then obtain w5 where k2: "stage_setup ?s = (Inr (), w5)"
    and k3: "\<exists>p h. w5 = ?s\<lparr>environ := (environ ?s)(''PATH'' \<mapsto>
                       p @ '':'' @ h @ ''/PANOSC/bin'' @ '':/usr/lib64/mpich/bin:'')\<rparr>"
    and k4: "w5 \<noteq> ?s"
    by blast
  from k2 have g2: "fst (stage_setup ?s) = Inr ()" and k5: "snd (stage_setup ?s) = w5" by simp_all
  from k3 have "fs w5 = fs ?s" and "cwd w5 = cwd ?s" by auto
  with k5 have g3: "fs (snd (stage_setup ?s)) = fs ?s" and g4: "cwd (snd (stage_setup ?s)) = cwd ?s"
    by simp_all
  from k4 k5 have g5: "snd (stage_setup ?s) \<noteq> ?s" by simp
  let ?p = "snd (cell_tmpdir start)"
  let ?q = "snd (os_makedirs pseudo_dir True ?p)"
  have f1: "fst (cell_tmpdir start) = Inr ()" by (simp add: eval_defs)
  then have h1: "cell_tmpdir start = (Inr (), ?p)" by (simp add: prod_eq_iff)
  have f2: "fst (os_makedirs pseudo_dir True ?p) = Inr ()" by (simp add: eval_defs)
  then have h2: "os_makedirs pseudo_dir True ?p = (Inr (), ?q)" by (simp add: prod_eq_iff)
  have old: "fs ?p [''tmp'', ''jupiter'', ''mcstas_output''] = Some Dir" by (simp add: eval_defs)
  have h3: "tmpdir \<noteq> [] \<and> isdir (fs ?p) (abspath (cwd ?p) tmpdir)
        \<and> (butlast (components tmpdir) = []
             \<or> exists_p (fs ?p) (base_of (cwd ?p) tmpdir @ butlast (components tmpdir)))"
    by (simp add: eval_defs)
  from preparation_twice[where w = start and ?w3.0 = ?p] h1
  have c1: "cell_tmpdir ?p = (Inr (), ?p)" by blast
  from preparation_twice[where name = pseudo_dir and w = ?p and ?w1.0 = ?q and r = "Inr ()"] h2
  have c2: "os_makedirs pseudo_dir True ?q = (Inr (), ?q)"
    and c3: "\<forall>q. fs ?p q \<noteq> None \<longrightarrow> fs ?q q = fs ?p q" by blast+
  from c3 old have c4: "fs ?q [''tmp'', ''jupiter'', ''mcstas_output''] = Some Dir" by simp
  from preparation_twice[where name = tmpdir and w = ?p] h3
  have c5: "os_makedirs tmpdir True ?p = (Inr (), ?p)" by blast
  from f1 c1 f2 c2 old c4 h3 c5 g1 g2 g3 g4 g5 show ?thesis by blast
qed

text \<open>
  Claim C9 as stated says that running the preparation twice has the same effect as
  running it once. From the start state both runs succeed; after one run the search path
  ends with the two appended entries, after two runs it holds them twice.
\<close>

theorem path_grows_on_rerun:
  "fst (stage_setup start) = Inr ()
   \<and> fst (stage_setup (snd (stage_setup start))) = Inr ()
   \<and> environ (snd (stage_setup start)) ''PATH''
        = Some ''/usr/bin:/root/PANOSC/bin:/usr/lib64/mpich/bin:''
   \<and> environ (snd (stage_setup (snd (stage_setup start)))) ''PATH''
        = Some ''/usr/bin:/root/PANOSC/bin:/usr/lib64/mpich/bin::/root/PANOSC/bin:/usr/lib64/mpich/bin:''
   \<and> snd (stage_setup (snd (stage_setup start))) \<noteq> snd (stage_setup start)"
proof -
  have a: "fst (stage_setup start) = Inr ()" by (simp add: eval_defs)
  have b: "fst (stage_setup (snd (stage_setup start))) = Inr ()" by (simp add: eval_defs)
  have c: "environ (snd (stage_setup start)) ''PATH''
        = Some ''/usr/bin:/root/PANOSC/bin:/usr/lib64/mpich/bin:''" by (simp add: eval_defs)
  have d: "environ (snd (stage_setup (snd (stage_setup start)))) ''PATH''
        = Some ''/usr/bin:/root/PANOSC/bin:/usr/lib64/mpich/bin::/root/PANOSC/bin:/usr/lib64/mpich/bin:''"
    by (simp add: eval_defs)
  have e: "snd (stage_setup (snd (stage_setup start))) \<noteq> snd (stage_setup start)"
  proof
    assume "snd (stage_setup (snd (stage_setup start))) = snd (stage_setup start)"
    then have "environ (snd (stage_setup (snd (stage_setup start)))) ''PATH''
        = environ (snd (stage_setup start)) ''PATH''" by simp
    then show False unfolding c d by simp
  qed
  from a b c d e show ?thesis by blast
qed

subsection \<open>C10: the pseudopotential the solver is given\<close>

text \<open>
  Claim C10. The pseudopotential cell issues two downloads, first the file
  \<^verbatim>\<open>N.pbe-n-kjpaw_psl.1.0.0.UPF\<close> from the Quantum Espresso archive and then the file
  \<^verbatim>\<open>N.pbe-n-radius_5.UPF\<close> from GitHub, and the calculator built from the value it leaves
  in \<^verbatim>\<open>pseudopotfile\<close> maps nitrogen to the second file; the first file is neither among
  the pseudopotentials of the configuration nor any other text in it.
\<close>

theorem solver_uses_second_pseudopotential:
  assumes "cell_pseudo x w = (Inr pseudopotfile, w1)"
    and "cell_calc pseudopotfile atomCIF w2 = (Inr atom, w3)"
  shows "calls w1 = calls w @
           [Shell ''wget -c https://www.quantum-espresso.org/upf_files/N.pbe-n-kjpaw_psl.1.0.0.UPF''
              [''tmp'', ''jupiter'', ''pseudo''],
            Shell ''wget -c https://raw.githubusercontent.com/PaNOSC-ViNYL/workshop2020/team2/demo/team2/N.pbe-n-radius_5.UPF''
              [''tmp'', ''jupiter'', ''pseudo'']]
         \<and> (\<exists>c. atom < length (heap w3) \<and> calc (heap w3 ! atom) = Some c
              \<and> map_of (pseudopotentials (params c)) ''N'' = Some ''N.pbe-n-radius_5.UPF''
              \<and> ''N.pbe-n-kjpaw_psl.1.0.0.UPF'' \<notin> snd ` set (pseudopotentials (params c))
              \<and> ''N.pbe-n-kjpaw_psl.1.0.0.UPF'' \<notin>
                    {calculation (params c), occupations (params c), smearing (params c),
                     outdir (params c), pseudo_dir_arg (params c), mixing_mode (params c),
                     ion_dynamics (params c)})"
proof -
  from assms(1) have pf: "pseudopotfile = ''N.pbe-n-radius_5.UPF''"
    and tr: "calls w1 = calls w @
           [Shell ''wget -c https://www.quantum-espresso.org/upf_files/N.pbe-n-kjpaw_psl.1.0.0.UPF''
              [''tmp'', ''jupiter'', ''pseudo''],
            Shell ''wget -c https://raw.githubusercontent.com/PaNOSC-ViNYL/workshop2020/team2/demo/team2/N.pbe-n-radius_5.UPF''
              [''tmp'', ''jupiter'', ''pseudo'']]"
    by (auto dest: cell_pseudo_result)
  from cell_calc_result[OF assms(2)] pf
  have "atom < length (heap w3)"
    and "calc (heap w3 ! atom) = Some \<lparr>params = Espresso ''N.pbe-n-radius_5.UPF'', results = None\<rparr>"
    by auto
  then show ?thesis using tr by (simp add: Espresso_def tmpdir_def pseudo_dir_def)
qed

text \<open>
  An instance of C10: the pseudopotential cell and the configuration cell run, and the
  calculator attached to the structure maps nitrogen to the second file.
\<close>

theorem second_pseudopotential_example:
  "fst (cell_pseudo lab start) = Inr ''N.pbe-n-radius_5.UPF''
   \<and> fst (cell_calc ''N.pbe-n-radius_5.UPF'' 0 loaded) = Inr 0
   \<and> calls (snd (cell_pseudo lab start)) = calls start @
           [Shell ''wget -c https://www.quantum-espresso.org/upf_files/N.pbe-n-kjpaw_psl.1.0.0.UPF''
              [''tmp'', ''jupiter'', ''pseudo''],
            Shell ''wget -c https://raw.githubusercontent.com/PaNOSC-ViNYL/workshop2020/team2/demo/team2/N.pbe-n-radius_5.UPF''
              [''tmp'', ''jupiter'', ''pseudo'']]
   \<and> (\<exists>c. calc (heap (snd (cell_calc ''N.pbe-n-radius_5.UPF'' 0 loaded)) ! 0) = Some c
          \<and> map_of (pseudopotentials (params c)) ''N'' = Some ''N.pbe-n-radius_5.UPF'')"
proof -
  have f1: "fst (cell_pseudo lab start) = Inr ''N.pbe-n-radius_5.UPF''"
    by (simp add: eval_defs)
  have f2: "fst (cell_calc ''N.pbe-n-radius_5.UPF'' 0 loaded) = Inr 0"
    by (simp add: eval_defs)
  have h1: "cell_pseudo lab start = (Inr ''N.pbe-n-radius_5.UPF'', snd (cell_pseudo lab start))"
    using f1 by (simp add: prod_eq_iff)
  have h2: "cell_calc ''N.pbe-n-radius_5.UPF'' 0 loaded =
      (Inr 0, snd (cell_calc ''N.pbe-n-radius_5.UPF'' 0 loaded))"
    using f2 by (simp add: prod_eq_iff)
  from solver_uses_second_pseudopotential[OF h1 h2] f1 f2 show ?thesis by blast
qed

end
